theory Spec2Isabelle
  imports Main
begin

section \<open>Data model (types.ts)\<close>

text \<open>
  \<^verbatim>\<open>MCPEventType = 'invocation' | 'success' | 'failure'\<close>. The constructors are
  capitalised because \<open>success\<close> is also a field of \<open>TrackingResult\<close>.
\<close>

datatype MCPEventType = Invocation | Success | Failure

text \<open>
  \<^verbatim>\<open>MCPMetadata = Record<string, unknown>\<close>: an object is a partial map from property
  names to values. The value type \<open>unknown\<close> is the type variable \<open>'v\<close>: the code never
  looks inside a value.
\<close>

type_synonym 'v MCPMetadata = "string \<Rightarrow> 'v option"

text \<open>
  A JSON-like value type, used only to instantiate \<open>'v\<close> in concrete examples.
\<close>

datatype JSValue =
    JNull
  | JBool bool
  | JNum int
  | JStr string
  | JArr "JSValue list"
  | JObj "string \<Rightarrow> JSValue option"

text \<open>
  \<^verbatim>\<open>MCPEventPayload\<close>: an optional property (\<^verbatim>\<open>duration_ms?\<close>, \<^verbatim>\<open>metadata?\<close>) is
  \<open>None\<close> when the property is absent from the object.
\<close>

record 'v MCPEventPayload =
  tool_name :: string
  event_type :: MCPEventType
  duration_ms :: "int option"
  metadata :: "'v MCPMetadata option"

text \<open>
  \<^verbatim>\<open>Required<MCPTrackerConfig>\<close>, the configuration after the constructor has filled in
  the defaults. \<open>timeout\<close> is a non-negative integer of milliseconds, \<open>retries\<close> an
  integer (the loop of the retry handler is written out for negative values too).
\<close>

record MCPTrackerConfig =
  apiKey :: string
  endpoint :: string
  timeout :: nat
  retries :: int
  debug :: bool

text \<open>
  Thrown values. The code reads three properties of a caught value: \<open>name\<close>,
  \<open>message\<close> (optional chaining: it may be missing) and \<open>status\<close> (set by the
  transport on HTTP errors). \<^verbatim>\<open>new Error(msg)\<close> has name \<^verbatim>\<open>Error\<close> and no status.
\<close>

record JSError =
  name :: string
  message :: "string option"
  status :: "int option"

definition Error :: "string \<Rightarrow> JSError" where
  "Error msg = \<lparr>name = ''Error'', message = Some msg, status = None\<rparr>"

text \<open>\<^verbatim>\<open>TrackingResult { success: boolean; error?: Error }\<close>\<close>

record TrackingResult =
  success :: bool
  error :: "JSError option"

section \<open>utils.ts\<close>

subsection \<open>mergeMetadata\<close>

text \<open>
  \<^verbatim>\<open>metadatas.reduce((acc, metadata) => { if (!metadata) return acc;
     return { ...acc, ...metadata }; }, {})\<close>.
  An object spread copies the properties of \<open>acc\<close> and then those of \<open>metadata\<close>, the
  later ones replacing the earlier ones: \<open>acc ++ metadata\<close> on maps. \<open>undefined\<close> is
  \<open>None\<close>; every object is truthy.
\<close>

definition mergeStep :: "'v MCPMetadata \<Rightarrow> 'v MCPMetadata option \<Rightarrow> 'v MCPMetadata" where
  "mergeStep acc md = (case md of None \<Rightarrow> acc | Some m \<Rightarrow> acc ++ m)"

definition mergeMetadata :: "'v MCPMetadata option list \<Rightarrow> 'v MCPMetadata" where
  "mergeMetadata metadatas = foldl mergeStep Map.empty metadatas"

subsection \<open>isRetryableError\<close>

text \<open>\<^verbatim>\<open>String.prototype.includes\<close>: does \<open>t\<close> occur in \<open>s\<close> as a contiguous substring.\<close>

fun str_includes :: "string \<Rightarrow> string \<Rightarrow> bool" where
  "str_includes [] t = (t = [])"
| "str_includes (c # cs) t = (take (length t) (c # cs) = t \<or> str_includes cs t)"

text \<open>
  The checks in the order of the source: first the network test on \<open>name\<close> and
  \<open>message\<close>, then the status ranges (\<^verbatim>\<open>if (error.status)\<close> is false for a missing
  status and for \<open>0\<close>), then the default.
\<close>

definition isRetryableError :: "JSError \<Rightarrow> bool" where
  "isRetryableError err =
     (if name err = ''TypeError''
         \<or> (case message err of None \<Rightarrow> False | Some m \<Rightarrow> str_includes m ''fetch'')
      then True
      else (case status err of
              None \<Rightarrow> True
            | Some s \<Rightarrow>
                if s \<noteq> 0 \<and> 400 \<le> s \<and> s < 500 then False
                else if s \<noteq> 0 \<and> 500 \<le> s then True
                else True))"

section \<open>The environment\<close>

text \<open>
  The environment of the program. \<open>'w\<close> is the state of everything outside the tracker
  (network, clock, the host application); the tracker never reads it except through:
  \<^item> \<open>fetch\<close>: what happens to one request (see \<open>FetchOutcome\<close> below);
  \<^item> \<open>stringifyError\<close>: the error that \<^verbatim>\<open>JSON.stringify\<close> throws for a metadata object
    holding a value it cannot serialise (a \<^verbatim>\<open>BigInt\<close>, a cycle), \<open>None\<close> when it
    serialises;
  \<^item> \<open>sleep d\<close>: the world after a timer of \<open>d\<close> milliseconds has been awaited;
  \<^item> \<open>now\<close>: \<^verbatim>\<open>Date.now()\<close>.
  \<open>debugLog\<close> only writes to the console; console output is not modelled, so the
  \<open>debug\<close> flag changes no result below.
\<close>

text \<open>
  The outcome of awaiting a promise is a value of \<open>JSError + 'a Completion\<close>: the promise
  rejects (\<open>Inl\<close>), resolves (\<open>Inr (Returns v)\<close>), or never settles (\<open>Inr Stalls\<close>).
  After an \<^verbatim>\<open>await\<close> of a promise that never settles nothing more happens.
\<close>

datatype 'a Completion = Returns 'a | Stalls

datatype Ack = Ack (ack_ok: bool)

text \<open>
  A \<^verbatim>\<open>Response\<close> as the transport reads it: \<open>ok\<close>, \<open>status\<close> (here \<open>http_status\<close>, as
  \<open>status\<close> is the field of the error), \<open>statusText\<close>, the outcome of \<^verbatim>\<open>response.text()\<close>
  and the outcome of \<^verbatim>\<open>response.json()\<close>. Either body read may reject, resolve or never
  settle (a body that stalls).
\<close>

record Response =
  ok :: bool
  http_status :: int
  statusText :: string
  body_text :: "JSError + string Completion"
  body_json :: "JSError + Ack Completion"

text \<open>
  What one \<^verbatim>\<open>fetch\<close> call does: it resolves with a response or rejects with an error
  before the timeout timer fires, or it is still pending when the timer fires.
\<close>

datatype FetchOutcome =
    Resolves Response
  | Rejects JSError
  | Pending

record 'v Request =
  url :: string
  http_method :: string
  content_type :: string
  x_api_key :: string
  body :: "'v MCPEventPayload"

record ('v, 'w) Platform =
  fetch :: "'v Request \<Rightarrow> 'w \<Rightarrow> FetchOutcome \<times> 'w"
  stringifyError :: "'v MCPMetadata \<Rightarrow> JSError option"
  sleep :: "nat \<Rightarrow> 'w \<Rightarrow> 'w"
  now :: "'w \<Rightarrow> int"

section \<open>retry.ts\<close>

text \<open>
  What the retry handler does, in order: each call of the operation, with the events the
  operation produced and its outcome, and each delay that was awaited.
\<close>

datatype ('e, 'a) RetryEvent =
    Attempt "'e list" "JSError + 'a"
  | Delay nat

record RetryHandler =
  maxRetries :: int
  retry_debug :: bool

text \<open>\<^verbatim>\<open>Math.min(100 * Math.pow(2, attempt), 3000)\<close>\<close>

definition backoff :: "nat \<Rightarrow> nat" where
  "backoff attempt = min (100 * 2 ^ attempt) 3000"

text \<open>
  The \<^verbatim>\<open>for (let attempt = 0; attempt <= this.maxRetries; attempt++)\<close> loop, from the
  iteration \<open>attempt\<close> on. The operation \<open>fn\<close> is a closure: it acts on the world and
  either returns a value (\<open>Inr\<close>) or throws (\<open>Inl\<close>). The last branch is the
  \<^verbatim>\<open>throw lastError || new Error(...)\<close> after the loop. An operation that may never
  settle has a value type with a value for that (\<open>Stalls\<close>, see \<open>sendAttempt\<close>): at
  \<^verbatim>\<open>return await fn()\<close> the loop then does nothing more, and the run ends with that
  call.
\<close>

function execute_loop ::
  "('v, 'w) Platform \<Rightarrow> RetryHandler \<Rightarrow> ('w \<Rightarrow> (JSError + 'a) \<times> 'w \<times> 'e list) \<Rightarrow>
   nat \<Rightarrow> JSError option \<Rightarrow> 'w \<Rightarrow> (JSError + 'a) \<times> 'w \<times> ('e, 'a) RetryEvent list"
where
  "execute_loop pf h fn attempt lastError w =
     (if int attempt \<le> maxRetries h then
        (let (outcome, w1, es) = fn w in
         case outcome of
           Inr v \<Rightarrow> (Inr v, w1, [Attempt es (Inr v)])
         | Inl err \<Rightarrow>
             if \<not> isRetryableError err then (Inl err, w1, [Attempt es (Inl err)])
             else if int attempt = maxRetries h then (Inl err, w1, [Attempt es (Inl err)])
             else
               (let delay = backoff attempt;
                    (r, w2, tr) = execute_loop pf h fn (attempt + 1) (Some err) (sleep pf delay w1)
                in (r, w2, Attempt es (Inl err) # Delay delay # tr)))
      else
        (Inl (case lastError of
                Some e \<Rightarrow> e
              | None \<Rightarrow> Error ''Unexpected error in retry handler''), w, []))"
  by pat_completeness auto
termination
  by (relation "measure (\<lambda>(pf, h, fn, attempt, lastError, w). nat (maxRetries h + 1 - int attempt))")
     auto

declare execute_loop.simps [simp del]

definition execute ::
  "('v, 'w) Platform \<Rightarrow> RetryHandler \<Rightarrow> ('w \<Rightarrow> (JSError + 'a) \<times> 'w \<times> 'e list) \<Rightarrow>
   'w \<Rightarrow> (JSError + 'a) \<times> 'w \<times> ('e, 'a) RetryEvent list" where
  "execute pf h fn w = execute_loop pf h fn 0 None w"

text \<open>Reading a trace of the retry handler: how often the operation was called, and
  the delays that were awaited, in order.\<close>

fun attempts :: "('e, 'a) RetryEvent list \<Rightarrow> nat" where
  "attempts [] = 0"
| "attempts (Attempt es r # tr) = Suc (attempts tr)"
| "attempts (Delay d # tr) = attempts tr"

fun delays :: "('e, 'a) RetryEvent list \<Rightarrow> nat list" where
  "delays [] = []"
| "delays (Attempt es r # tr) = delays tr"
| "delays (Delay d # tr) = d # delays tr"

text \<open>
  Replaying a trace on a world: an \<open>Attempt\<close> is a call of the operation in the current
  world, which must produce the recorded events and outcome, and a \<open>Delay d\<close> is the
  platform's \<open>sleep d\<close>. The result is the world after the last event, or \<open>None\<close> when
  a recorded attempt is not what the operation does in the world reached.
\<close>

fun replay ::
  "('v, 'w) Platform \<Rightarrow> ('w \<Rightarrow> (JSError + 'a) \<times> 'w \<times> 'e list) \<Rightarrow>
   ('e, 'a) RetryEvent list \<Rightarrow> 'w \<Rightarrow> 'w option" where
  "replay pf fn [] w = Some w"
| "replay pf fn (Attempt es r # tr) w =
     (case fn w of (r', w1, es') \<Rightarrow> if r' = r \<and> es' = es then replay pf fn tr w1 else None)"
| "replay pf fn (Delay d # tr) w = replay pf fn tr (sleep pf d w)"

section \<open>client.ts\<close>

text \<open>
  Template literals render numbers in decimal: \<^verbatim>\<open>`${this.config.timeout}`\<close>,
  \<^verbatim>\<open>`${response.status}`\<close>. (JavaScript prints integers below \<open>10^21\<close> this way.)
\<close>

definition digit :: "nat \<Rightarrow> char" where
  "digit d = ''0123456789'' ! d"

fun toString_nat :: "nat \<Rightarrow> string" where
  "toString_nat n = (if n < 10 then [digit n] else toString_nat (n div 10) @ [digit (n mod 10)])"

declare toString_nat.simps [simp del]

definition toString_int :: "int \<Rightarrow> string" where
  "toString_int i = (if i < 0 then CHR ''-'' # toString_nat (nat (- i)) else toString_nat (nat i))"

text \<open>
  The request of \<^verbatim>\<open>fetch(this.config.endpoint, { method: 'POST', headers: {...},
  body: JSON.stringify(payload), signal })\<close>. The body is kept as the payload object, not
  as its JSON text; whether \<^verbatim>\<open>JSON.stringify\<close> throws is \<open>stringifyThrows\<close> below.
\<close>

definition request :: "MCPTrackerConfig \<Rightarrow> 'v MCPEventPayload \<Rightarrow> 'v Request" where
  "request config payload =
     \<lparr>url = endpoint config, http_method = ''POST'', content_type = ''application/json'',
      x_api_key = apiKey config, body = payload\<rparr>"

text \<open>
  \<^verbatim>\<open>JSON.stringify(payload)\<close>: the tool name, the event type and the duration always
  serialise, and so does a metadata object without properties; for any other metadata
  object the platform says whether a value in it makes the serialiser throw.
\<close>

definition stringifyThrows :: "('v, 'w) Platform \<Rightarrow> 'v MCPMetadata option \<Rightarrow> JSError option" where
  "stringifyThrows pf md =
     (case md of
        None \<Rightarrow> None
      | Some m \<Rightarrow> if m = Map.empty then None else stringifyError pf m)"

text \<open>
  What one delivery attempt does to its timer and to the network, in order.
  \<open>TimerFired\<close> is the timer callback \<^verbatim>\<open>() => controller.abort()\<close> running.
\<close>

datatype 'v TransportEvent =
    SetTimeout nat
  | FetchCall "'v Request"
  | TimerFired
  | ClearTimeout

text \<open>
  The rejection of an aborted \<^verbatim>\<open>fetch\<close>: a \<^verbatim>\<open>DOMException\<close> named \<^verbatim>\<open>AbortError\<close>.
  The code reads only its name.
\<close>

definition abortError :: JSError where
  "abortError = \<lparr>name = ''AbortError'', message = Some ''This operation was aborted'', status = None\<rparr>"

text \<open>\<^verbatim>\<open>new Error(`Request timeout after ${this.config.timeout}ms`)\<close>\<close>

definition timeoutError :: "MCPTrackerConfig \<Rightarrow> JSError" where
  "timeoutError config = Error (''Request timeout after '' @ toString_nat (timeout config) @ ''ms'')"

text \<open>
  The error built for a response that is not ok:
  \<^verbatim>\<open>errorBody = await response.text().catch(() => '')\<close>,
  \<^verbatim>\<open>new Error(`HTTP ${response.status}: ${errorBody || response.statusText}`)\<close>,
  \<^verbatim>\<open>error.status = response.status\<close>.
\<close>

definition httpError :: "Response \<Rightarrow> JSError" where
  "httpError response =
     (let errorBody = (case body_text response of Inr (Returns t) \<Rightarrow> t | _ \<Rightarrow> []) in
      \<lparr>name = ''Error'',
       message = Some (''HTTP '' @ toString_int (http_status response) @ '': '' @
                       (if errorBody \<noteq> [] then errorBody else statusText response)),
       status = Some (http_status response)\<rparr>)"

text \<open>
  The \<^verbatim>\<open>catch (error)\<close> block of the attempt: what is thrown on for a caught error.
\<close>

definition sendCatch :: "MCPTrackerConfig \<Rightarrow> JSError \<Rightarrow> JSError" where
  "sendCatch config err = (if name err = ''AbortError'' then timeoutError config else err)"

text \<open>
  One delivery attempt: the closure that \<open>sendEvent\<close> hands to the retry handler.
  \<^verbatim>\<open>setTimeout\<close> comes first; inside the \<^verbatim>\<open>try\<close>, \<^verbatim>\<open>JSON.stringify(payload)\<close> is
  evaluated before \<^verbatim>\<open>fetch\<close> is called, so when it throws no request is made. Every
  \<open>throw\<close> inside the \<^verbatim>\<open>try\<close> goes through the \<^verbatim>\<open>catch\<close> block. The last
  \<open>ClearTimeout\<close> of a trace of an attempt that settles is the \<^verbatim>\<open>finally\<close> block; when
  the fetch resolved, the \<open>ClearTimeout\<close> after the \<open>FetchCall\<close> is the \<^verbatim>\<open>clearTimeout\<close>
  after the \<^verbatim>\<open>await fetch\<close>. The body is read after that \<^verbatim>\<open>clearTimeout\<close>: when the
  body read never settles, the attempt never settles (\<open>Inr Stalls\<close>), the timer is already
  cleared and the \<^verbatim>\<open>finally\<close> block is never reached.
\<close>

definition sendAttempt ::
  "('v, 'w) Platform \<Rightarrow> MCPTrackerConfig \<Rightarrow> 'v MCPEventPayload \<Rightarrow> 'w \<Rightarrow>
   (JSError + Ack Completion) \<times> 'w \<times> 'v TransportEvent list" where
  "sendAttempt pf config payload w =
     (case stringifyThrows pf (metadata payload) of
        Some err \<Rightarrow>
          (Inl (sendCatch config err), w, [SetTimeout (timeout config), ClearTimeout])
      | None \<Rightarrow>
          (let req = request config payload in
           case fetch pf req w of
             (Pending, w1) \<Rightarrow>
               (Inl (sendCatch config abortError), w1,
                [SetTimeout (timeout config), FetchCall req, TimerFired, ClearTimeout])
           | (Rejects err, w1) \<Rightarrow>
               (Inl (sendCatch config err), w1,
                [SetTimeout (timeout config), FetchCall req, ClearTimeout])
           | (Resolves response, w1) \<Rightarrow>
               if \<not> ok response then
                 (case body_text response of
                    Inr Stalls \<Rightarrow>
                      (Inr Stalls, w1,
                       [SetTimeout (timeout config), FetchCall req, ClearTimeout])
                  | _ \<Rightarrow>
                      (Inl (sendCatch config (httpError response)), w1,
                       [SetTimeout (timeout config), FetchCall req, ClearTimeout, ClearTimeout]))
               else
                 (case body_json response of
                    Inl err \<Rightarrow>
                      (Inl (sendCatch config err), w1,
                       [SetTimeout (timeout config), FetchCall req, ClearTimeout, ClearTimeout])
                  | Inr Stalls \<Rightarrow>
                      (Inr Stalls, w1,
                       [SetTimeout (timeout config), FetchCall req, ClearTimeout])
                  | Inr (Returns data) \<Rightarrow>
                      (Inr (Returns data), w1,
                       [SetTimeout (timeout config), FetchCall req, ClearTimeout, ClearTimeout]))))"

text \<open>
  \<open>APIClient.sendEvent\<close>; the constructor builds
  \<^verbatim>\<open>new RetryHandler(config.retries, config.debug)\<close>.
\<close>

definition sendEvent ::
  "('v, 'w) Platform \<Rightarrow> MCPTrackerConfig \<Rightarrow> 'v MCPEventPayload \<Rightarrow> 'w \<Rightarrow>
   (JSError + Ack Completion) \<times> 'w \<times> ('v TransportEvent, Ack Completion) RetryEvent list" where
  "sendEvent pf config payload w =
     execute pf \<lparr>maxRetries = retries config, retry_debug = debug config\<rparr>
       (sendAttempt pf config payload) w"

section \<open>tracker.ts\<close>

text \<open>The constructor: the caller's partial configuration and the defaults.\<close>

record MCPTrackerConfigInput =
  in_apiKey :: string
  in_endpoint :: "string option"
  in_timeout :: "nat option"
  in_retries :: "int option"
  in_debug :: "bool option"

definition DEFAULT_ENDPOINT :: string where
  "DEFAULT_ENDPOINT = ''https://dersubrqatbvvmzwkmsj.supabase.co/functions/v1/track-mcp-event''"

definition MCPTracker :: "MCPTrackerConfigInput \<Rightarrow> MCPTrackerConfig" where
  "MCPTracker c =
     \<lparr>apiKey = in_apiKey c,
      endpoint = (case in_endpoint c of None \<Rightarrow> DEFAULT_ENDPOINT
                  | Some e \<Rightarrow> if e = [] then DEFAULT_ENDPOINT else e),
      timeout = (case in_timeout c of None \<Rightarrow> 5000 | Some t \<Rightarrow> t),
      retries = (case in_retries c of None \<Rightarrow> 3 | Some r \<Rightarrow> r),
      debug = (case in_debug c of None \<Rightarrow> False | Some d \<Rightarrow> d)\<rparr>"

text \<open>
  One call of \<open>client.sendEvent\<close>: the payload handed over, and what the retry handler
  did with it.
\<close>

datatype 'v Delivery =
  Delivery (payload: "'v MCPEventPayload")
    (transport: "('v TransportEvent, Ack Completion) RetryEvent list")

text \<open>
  \<open>track\<close>. The payload has \<open>duration_ms\<close> when \<^verbatim>\<open>durationMs !== undefined\<close> and
  \<open>metadata\<close> when the metadata is truthy, which every object is. When
  \<^verbatim>\<open>await this.client.sendEvent(payload)\<close> never settles, \<open>track\<close> never settles.
\<close>

definition track ::
  "('v, 'w) Platform \<Rightarrow> MCPTrackerConfig \<Rightarrow> string \<Rightarrow> MCPEventType \<Rightarrow>
   'v MCPMetadata option \<Rightarrow> int option \<Rightarrow> 'w \<Rightarrow>
   (JSError + TrackingResult Completion) \<times> 'w \<times> 'v Delivery list" where
  "track pf config toolName eventType md durationMs w =
     (let payload = \<lparr>tool_name = toolName, event_type = eventType,
                      duration_ms = durationMs, metadata = md\<rparr> in
      case sendEvent pf config payload w of
        (Inr (Returns data), w1, tr) \<Rightarrow>
          (Inr (Returns \<lparr>success = True, error = None\<rparr>), w1, [Delivery payload tr])
      | (Inr Stalls, w1, tr) \<Rightarrow> (Inr Stalls, w1, [Delivery payload tr])
      | (Inl err, w1, tr) \<Rightarrow>
          (Inr (Returns \<lparr>success = False, error = Some err\<rparr>), w1, [Delivery payload tr]))"

definition trackInvocation ::
  "('v, 'w) Platform \<Rightarrow> MCPTrackerConfig \<Rightarrow> string \<Rightarrow> 'v MCPMetadata option \<Rightarrow> 'w \<Rightarrow>
   (JSError + TrackingResult Completion) \<times> 'w \<times> 'v Delivery list" where
  "trackInvocation pf config toolName md w = track pf config toolName Invocation md None w"

definition trackSuccess ::
  "('v, 'w) Platform \<Rightarrow> MCPTrackerConfig \<Rightarrow> string \<Rightarrow> 'v MCPMetadata option \<Rightarrow>
   int option \<Rightarrow> 'w \<Rightarrow> (JSError + TrackingResult Completion) \<times> 'w \<times> 'v Delivery list" where
  "trackSuccess pf config toolName md durationMs w = track pf config toolName Success md durationMs w"

definition trackFailure ::
  "('v, 'w) Platform \<Rightarrow> MCPTrackerConfig \<Rightarrow> string \<Rightarrow> 'v MCPMetadata option \<Rightarrow>
   int option \<Rightarrow> 'w \<Rightarrow> (JSError + TrackingResult Completion) \<times> 'w \<times> 'v Delivery list" where
  "trackFailure pf config toolName md durationMs w = track pf config toolName Failure md durationMs w"

subsection \<open>wrap\<close>

text \<open>
  \<^verbatim>\<open>WrapOptions\<close>. An absent option is \<open>None\<close>. An extractor is a function that returns
  a metadata object (or \<open>undefined\<close>: \<open>Inr None\<close>) or throws (\<open>Inl\<close>). The option
  \<^verbatim>\<open>trackInvocation\<close> is the field \<open>trackInvocation_opt\<close>, as \<open>trackInvocation\<close> is the
  method above. \<open>'p\<close>, \<open>'m\<close> and \<open>'r\<close> are \<^verbatim>\<open>TParams\<close>, \<^verbatim>\<open>TMeta | undefined\<close> and
  \<^verbatim>\<open>TResult\<close>.
\<close>

record ('p, 'm, 'r, 'v) WrapOptions =
  getMetadata :: "('p \<Rightarrow> 'm \<Rightarrow> JSError + 'v MCPMetadata option) option"
  getOutputMetadata :: "('r \<Rightarrow> JSError + 'v MCPMetadata option) option"
  getErrorMetadata :: "(JSError \<Rightarrow> JSError + 'v MCPMetadata option) option"
  trackInvocation_opt :: "bool option"
  rethrowErrors :: "bool option"

text \<open>\<^verbatim>\<open>options = {}\<close>\<close>

definition defaultOptions :: "('p, 'm, 'r, 'v) WrapOptions" where
  "defaultOptions =
     \<lparr>getMetadata = None, getOutputMetadata = None, getErrorMetadata = None,
      trackInvocation_opt = None, rethrowErrors = None\<rparr>"

text \<open>The destructuring defaults \<^verbatim>\<open>trackInvocation: shouldTrackInvocation = true\<close> and
  \<^verbatim>\<open>rethrowErrors = true\<close>.\<close>

definition shouldTrackInvocation :: "('p, 'm, 'r, 'v) WrapOptions \<Rightarrow> bool" where
  "shouldTrackInvocation options = (case trackInvocation_opt options of None \<Rightarrow> True | Some b \<Rightarrow> b)"

definition shouldRethrow :: "('p, 'm, 'r, 'v) WrapOptions \<Rightarrow> bool" where
  "shouldRethrow options = (case rethrowErrors options of None \<Rightarrow> True | Some b \<Rightarrow> b)"

text \<open>
  The three extractor blocks. Each is
  \<^verbatim>\<open>let x; if (getX) { try { x = getX(...) } catch (error) { debugLog(...) } }\<close>.
\<close>

definition invocationMetadataOf ::
  "('p, 'm, 'r, 'v) WrapOptions \<Rightarrow> 'p \<Rightarrow> 'm \<Rightarrow> 'v MCPMetadata option" where
  "invocationMetadataOf options params meta =
     (case getMetadata options of
        None \<Rightarrow> None
      | Some g \<Rightarrow> (case g params meta of Inl err \<Rightarrow> None | Inr md \<Rightarrow> md))"

definition outputMetadataOf ::
  "('p, 'm, 'r, 'v) WrapOptions \<Rightarrow> 'r \<Rightarrow> 'v MCPMetadata option" where
  "outputMetadataOf options result =
     (case getOutputMetadata options of
        None \<Rightarrow> None
      | Some g \<Rightarrow> (case g result of Inl err \<Rightarrow> None | Inr md \<Rightarrow> md))"

definition errorMetadataOf ::
  "('p, 'm, 'r, 'v) WrapOptions \<Rightarrow> JSError \<Rightarrow> 'v MCPMetadata option" where
  "errorMetadataOf options err =
     (case getErrorMetadata options of
        None \<Rightarrow> None
      | Some g \<Rightarrow> (case g err of Inl metaError \<Rightarrow> None | Inr md \<Rightarrow> md))"

text \<open>
  What a wrapped call does, in order: the deliveries it hands to the client and the call
  of the wrapped function.
\<close>

datatype ('p, 'm, 'v) WrapEvent =
    Tracked "'v Delivery"
  | Invoked 'p 'm

text \<open>
  \<^verbatim>\<open>if (shouldTrackInvocation) { await this.trackInvocation(toolName, invocationMetadata); }\<close>:
  whether the step throws (the awaited promise rejects), completes or never settles, the
  world afterwards, and the deliveries made.
\<close>

definition trackInvocationStep ::
  "('v, 'w) Platform \<Rightarrow> MCPTrackerConfig \<Rightarrow> string \<Rightarrow> ('p, 'm, 'r, 'v) WrapOptions \<Rightarrow>
   'v MCPMetadata option \<Rightarrow> 'w \<Rightarrow> (JSError + unit Completion) \<times> 'w \<times> 'v Delivery list" where
  "trackInvocationStep pf config toolName options invocationMetadata w =
     (if shouldTrackInvocation options then
        (case trackInvocation pf config toolName invocationMetadata w of
           (Inl err, w1, ds) \<Rightarrow> (Inl err, w1, ds)
         | (Inr Stalls, w1, ds) \<Rightarrow> (Inr Stalls, w1, ds)
         | (Inr (Returns res), w1, ds) \<Rightarrow> (Inr (Returns ()), w1, ds))
      else (Inr (Returns ()), w, []))"

text \<open>
  The \<^verbatim>\<open>try\<close> block of the wrapped function, after the invocation metadata has been
  computed: \<open>Inr (Returns result)\<close> when it reaches \<^verbatim>\<open>return result\<close>, \<open>Inl error\<close> when
  something in it throws, \<open>Inr Stalls\<close> when an awaited tracking call never settles. The
  wrapped function \<open>fn\<close> acts on the world and resolves (\<open>Inr\<close>) or rejects (\<open>Inl\<close>).
\<close>

definition wrapTry ::
  "('v, 'w) Platform \<Rightarrow> MCPTrackerConfig \<Rightarrow> string \<Rightarrow>
   ('p \<Rightarrow> 'm \<Rightarrow> 'w \<Rightarrow> (JSError + 'r) \<times> 'w) \<Rightarrow> ('p, 'm, 'r, 'v) WrapOptions \<Rightarrow>
   'p \<Rightarrow> 'm \<Rightarrow> int \<Rightarrow> 'v MCPMetadata option \<Rightarrow> 'w \<Rightarrow>
   (JSError + 'r Completion) \<times> 'w \<times> ('p, 'm, 'v) WrapEvent list" where
  "wrapTry pf config toolName fn options params meta startTime invocationMetadata w =
     (case trackInvocationStep pf config toolName options invocationMetadata w of
        (Inl err, w1, ds1) \<Rightarrow> (Inl err, w1, map Tracked ds1)
      | (Inr Stalls, w1, ds1) \<Rightarrow> (Inr Stalls, w1, map Tracked ds1)
      | (Inr (Returns u), w1, ds1) \<Rightarrow>
          (case fn params meta w1 of
             (Inl err, w2) \<Rightarrow> (Inl err, w2, map Tracked ds1 @ [Invoked params meta])
           | (Inr result, w2) \<Rightarrow>
               (let duration = now pf w2 - startTime;
                    outputMetadata = outputMetadataOf options result;
                    successMetadata = mergeMetadata [invocationMetadata, outputMetadata]
                in case trackSuccess pf config toolName (Some successMetadata) (Some duration) w2 of
                     (Inl err, w3, ds3) \<Rightarrow>
                       (Inl err, w3, map Tracked ds1 @ [Invoked params meta] @ map Tracked ds3)
                   | (Inr Stalls, w3, ds3) \<Rightarrow>
                       (Inr Stalls, w3, map Tracked ds1 @ [Invoked params meta] @ map Tracked ds3)
                   | (Inr (Returns res), w3, ds3) \<Rightarrow>
                       (Inr (Returns result), w3,
                        map Tracked ds1 @ [Invoked params meta] @ map Tracked ds3))))"

text \<open>
  The function returned by \<open>wrap toolName fn options\<close>, applied to \<open>(params, meta)\<close>.
  It resolves with \<open>fn\<close>'s result (\<open>Inr (Returns (Some result))\<close>) or with \<open>undefined\<close>
  (\<open>Inr (Returns None)\<close>), or it rejects (\<open>Inl\<close>), or it never settles (\<open>Inr Stalls\<close>).
\<close>

definition wrap ::
  "('v, 'w) Platform \<Rightarrow> MCPTrackerConfig \<Rightarrow> string \<Rightarrow>
   ('p \<Rightarrow> 'm \<Rightarrow> 'w \<Rightarrow> (JSError + 'r) \<times> 'w) \<Rightarrow> ('p, 'm, 'r, 'v) WrapOptions \<Rightarrow>
   'p \<Rightarrow> 'm \<Rightarrow> 'w \<Rightarrow> (JSError + 'r option Completion) \<times> 'w \<times> ('p, 'm, 'v) WrapEvent list" where
  "wrap pf config toolName fn options params meta w =
     (let startTime = now pf w;
          invocationMetadata = invocationMetadataOf options params meta
      in case wrapTry pf config toolName fn options params meta startTime invocationMetadata w of
           (Inr (Returns result), w1, evs) \<Rightarrow> (Inr (Returns (Some result)), w1, evs)
         | (Inr Stalls, w1, evs) \<Rightarrow> (Inr Stalls, w1, evs)
         | (Inl err, w1, evs) \<Rightarrow>
             (let duration = now pf w1 - startTime;
                  errorMetadata = errorMetadataOf options err;
                  failureMetadata = mergeMetadata [invocationMetadata, errorMetadata]
              in case trackFailure pf config toolName (Some failureMetadata) (Some duration) w1 of
                   (Inl err2, w2, ds) \<Rightarrow> (Inl err2, w2, evs @ map Tracked ds)
                 | (Inr Stalls, w2, ds) \<Rightarrow> (Inr Stalls, w2, evs @ map Tracked ds)
                 | (Inr (Returns res), w2, ds) \<Rightarrow>
                     (if shouldRethrow options then Inl err else Inr (Returns None), w2,
                      evs @ map Tracked ds)))"

text \<open>Reading the trace of a wrapped call: the payloads delivered, in order.\<close>

fun deliveries :: "('p, 'm, 'v) WrapEvent list \<Rightarrow> 'v MCPEventPayload list" where
  "deliveries [] = []"
| "deliveries (Tracked d # evs) = payload d # deliveries evs"
| "deliveries (Invoked p m # evs) = deliveries evs"

section \<open>Auxiliary notions and example inputs\<close>

text \<open>The properties a metadata fragment contributes to a merge: none for \<open>undefined\<close>.\<close>

definition props :: "'v MCPMetadata option \<Rightarrow> 'v MCPMetadata" where
  "props md = (case md of None \<Rightarrow> Map.empty | Some m \<Rightarrow> m)"

text \<open>
  Example inputs, after the repository's tests. The example world is a counter of the
  calls made so far; \<open>failing\<close> always rejects with a status 500 error, \<open>flaky\<close> does so
  twice and then resolves (as in \<^verbatim>\<open>retry.test.ts\<close>).
\<close>

definition err500 :: JSError where
  "err500 = \<lparr>name = ''Error'', message = Some ''Server Error'', status = Some 500\<rparr>"

definition idlePlatform :: "(JSValue, nat) Platform" where
  "idlePlatform = \<lparr>fetch = (\<lambda>rq w. (Pending, Suc w)), stringifyError = (\<lambda>m. None),
                   sleep = (\<lambda>d w. w), now = (\<lambda>w. int w)\<rparr>"

text \<open>
  A platform whose world is a clock of milliseconds: awaiting a timer of \<open>d\<close>
  milliseconds advances it by \<open>d\<close>. \<open>instantFailure\<close> rejects with a status 500 error
  and takes no time.
\<close>

definition clockPlatform :: "(JSValue, nat) Platform" where
  "clockPlatform = \<lparr>fetch = (\<lambda>rq w. (Pending, w)), stringifyError = (\<lambda>m. None),
                    sleep = (\<lambda>d w. w + d), now = (\<lambda>w. int w)\<rparr>"

definition instantFailure :: "nat \<Rightarrow> (JSError + string) \<times> nat \<times> unit list" where
  "instantFailure w = (Inl err500, w, [])"

definition failing :: "nat \<Rightarrow> (JSError + string) \<times> nat \<times> unit list" where
  "failing n = (Inl err500, Suc n, [])"

definition flaky :: "nat \<Rightarrow> (JSError + string) \<times> nat \<times> unit list" where
  "flaky n = (if n < 2 then Inl err500 else Inr ''success'', Suc n, [])"

text \<open>
  A tracker with the default configuration, as in the tests
  (\<^verbatim>\<open>new MCPTracker({ apiKey: 'test-key' })\<close>).
\<close>

definition testConfig :: MCPTrackerConfig where
  "testConfig = MCPTracker \<lparr>in_apiKey = ''test-key'', in_endpoint = None, in_timeout = None,
                            in_retries = None, in_debug = None\<rparr>"

definition invocationPayload :: "JSValue MCPEventPayload" where
  "invocationPayload = \<lparr>tool_name = ''test_tool'', event_type = Invocation,
                        duration_ms = None, metadata = None\<rparr>"

text \<open>
  Example networks. \<open>okPlatform\<close> answers every request with 200 and \<^verbatim>\<open>{ok: true}\<close>;
  \<open>networkDown\<close> rejects every request with \<^verbatim>\<open>TypeError: fetch failed\<close>;
  \<open>badRequestPlatform\<close> answers every request with status 400 and a body text that
  mentions the word \<^verbatim>\<open>fetch\<close>; \<open>stallingPlatform\<close> answers every request with 200 and
  a body that never arrives; \<open>strictPlatform\<close> is \<open>okPlatform\<close> with a serialiser that
  rejects every metadata object that has a property (as if its values were \<^verbatim>\<open>BigInt\<close>s).
  Each call advances the example clock by one.
\<close>

definition okResponse :: Response where
  "okResponse = \<lparr>ok = True, http_status = 200, statusText = ''OK'',
                 body_text = Inr (Returns ''ok''), body_json = Inr (Returns (Ack True))\<rparr>"

definition stalledResponse :: Response where
  "stalledResponse = \<lparr>ok = True, http_status = 200, statusText = ''OK'',
                      body_text = Inr Stalls, body_json = Inr Stalls\<rparr>"

definition badRequest :: Response where
  "badRequest = \<lparr>ok = False, http_status = 400, statusText = ''Bad Request'',
                 body_text = Inr (Returns ''could not fetch record''),
                 body_json = Inl \<lparr>name = ''SyntaxError'', message = Some ''Unexpected token'', status = None\<rparr>\<rparr>"

definition fetchFailed :: JSError where
  "fetchFailed = \<lparr>name = ''TypeError'', message = Some ''fetch failed'', status = None\<rparr>"


definition okPlatform :: "(JSValue, nat) Platform" where
  "okPlatform = \<lparr>fetch = (\<lambda>rq w. (Resolves okResponse, Suc w)), stringifyError = (\<lambda>m. None),
                 sleep = (\<lambda>d w. w), now = (\<lambda>w. int w)\<rparr>"


definition stallingPlatform :: "(JSValue, nat) Platform" where
  "stallingPlatform = \<lparr>fetch = (\<lambda>rq w. (Resolves stalledResponse, Suc w)),
                       stringifyError = (\<lambda>m. None), sleep = (\<lambda>d w. w), now = (\<lambda>w. int w)\<rparr>"

definition networkDown :: "(JSValue, nat) Platform" where
  "networkDown = \<lparr>fetch = (\<lambda>rq w. (Rejects fetchFailed, Suc w)), stringifyError = (\<lambda>m. None),
                  sleep = (\<lambda>d w. w), now = (\<lambda>w. int w)\<rparr>"

definition badRequestPlatform :: "(JSValue, nat) Platform" where
  "badRequestPlatform = \<lparr>fetch = (\<lambda>rq w. (Resolves badRequest, Suc w)),
                         stringifyError = (\<lambda>m. None), sleep = (\<lambda>d w. w), now = (\<lambda>w. int w)\<rparr>"

text \<open>
  Example tools and options, after \<^verbatim>\<open>tracker.test.ts\<close>: a tool that resolves to
  \<^verbatim>\<open>{data: 'r'}\<close> and one that rejects with \<^verbatim>\<open>Error('boom')\<close>, each taking 100
  milliseconds of the example clock; the call \<^verbatim>\<open>wrapped({input: 'test'})\<close>; options
  whose three extractors all throw; and \<^verbatim>\<open>{ rethrowErrors: false }\<close>.
\<close>

definition testParams :: JSValue where
  "testParams = JObj [''input'' \<mapsto> JStr ''test'']"

definition testResult :: JSValue where
  "testResult = JObj [''data'' \<mapsto> JStr ''r'']"

definition boom :: JSError where
  "boom = Error ''boom''"

definition resolvingTool :: "JSValue \<Rightarrow> JSValue option \<Rightarrow> nat \<Rightarrow> (JSError + JSValue) \<times> nat" where
  "resolvingTool params meta w = (Inr testResult, w + 100)"

definition rejectingTool :: "JSValue \<Rightarrow> JSValue option \<Rightarrow> nat \<Rightarrow> (JSError + JSValue) \<times> nat" where
  "rejectingTool params meta w = (Inl boom, w + 100)"

definition brokenExtractors :: "(JSValue, JSValue option, JSValue, JSValue) WrapOptions" where
  "brokenExtractors =
     \<lparr>getMetadata = Some (\<lambda>params meta. Inl (Error ''getMetadata failed'')),
      getOutputMetadata = Some (\<lambda>result. Inl (Error ''getOutputMetadata failed'')),
      getErrorMetadata = Some (\<lambda>err. Inl (Error ''getErrorMetadata failed'')),
      trackInvocation_opt = None, rethrowErrors = None\<rparr>"






section \<open>Properties of the retry handler\<close>

subsection \<open>One iteration of the loop\<close>

lemma execute_loop_exit:
  "\<not> int k \<le> maxRetries h \<Longrightarrow>
   execute_loop pf h fn k le w =
     (Inl (case le of Some e \<Rightarrow> e | None \<Rightarrow> Error ''Unexpected error in retry handler''), w, [])"
  by (subst execute_loop.simps) simp

lemma execute_loop_ok:
  "int k \<le> maxRetries h \<Longrightarrow> fn w = (Inr v, w1, es) \<Longrightarrow>
   execute_loop pf h fn k le w = (Inr v, w1, [Attempt es (Inr v)])"
  by (subst execute_loop.simps) simp

lemma execute_loop_stop:
  "int k \<le> maxRetries h \<Longrightarrow> fn w = (Inl e, w1, es) \<Longrightarrow>
   \<not> isRetryableError e \<or> int k = maxRetries h \<Longrightarrow>
   execute_loop pf h fn k le w = (Inl e, w1, [Attempt es (Inl e)])"
  by (subst execute_loop.simps) auto

lemma execute_loop_retry:
  "int k < maxRetries h \<Longrightarrow> fn w = (Inl e, w1, es) \<Longrightarrow> isRetryableError e \<Longrightarrow>
   execute_loop pf h fn k le w =
     (case execute_loop pf h fn (Suc k) (Some e) (sleep pf (backoff k) w1) of
        (r, w2, tr) \<Rightarrow> (r, w2, Attempt es (Inl e) # Delay (backoff k) # tr))"
  by (subst execute_loop.simps) (simp add: Let_def)


text \<open>
  Induction over the iterations of the loop: a run that enters the loop either ends with
  the current call of the operation, or the call failed with a retryable error while
  retries remained, the delay was awaited, and the rest of the run starts at the next
  iteration.
\<close>

lemma execute_loop_induct [consumes 2, case_names last retry]:
  assumes "int k \<le> maxRetries h" and "execute_loop pf h fn k le w = (r, w', tr)"
    and last: "\<And>k w es. int k \<le> maxRetries h \<Longrightarrow> fn w = (r, w', es) \<Longrightarrow>
                 (\<forall>e. r = Inl e \<longrightarrow> \<not> isRetryableError e \<or> int k = maxRetries h) \<Longrightarrow>
                 P k w [Attempt es r]"
    and retry: "\<And>k w e w1 es tr2. int k < maxRetries h \<Longrightarrow> fn w = (Inl e, w1, es) \<Longrightarrow>
                 isRetryableError e \<Longrightarrow> P (Suc k) (sleep pf (backoff k) w1) tr2 \<Longrightarrow>
                 P k w (Attempt es (Inl e) # Delay (backoff k) # tr2)"
  shows "P k w tr"
  using assms(1,2)
proof (induction "nat (maxRetries h - int k)" arbitrary: k le w tr)
  case 0
  then have eq: "int k = maxRetries h" by simp
  obtain out w1 es where f: "fn w = (out, w1, es)" by (cases "fn w") auto
  have "execute_loop pf h fn k le w = (out, w1, [Attempt es out])"
  proof (cases out)
    case (Inl e)
    with f eq show ?thesis using execute_loop_stop[of k h fn w e w1 es pf le] by simp
  next
    case (Inr v)
    with f eq show ?thesis using execute_loop_ok[of k h fn w v w1 es pf le] by simp
  qed
  with 0(3) have "r = out" "w' = w1" "tr = [Attempt es out]" by auto
  with f eq show ?case using last[of k w es] by simp
next
  case (Suc n)
  then have lt: "int k < maxRetries h" by simp
  obtain out w1 es where f: "fn w = (out, w1, es)" by (cases "fn w") auto
  show ?case
  proof (cases "\<exists>e. out = Inl e \<and> isRetryableError e")
    case False
    have "execute_loop pf h fn k le w = (out, w1, [Attempt es out])"
    proof (cases out)
      case (Inl e)
      with f lt False show ?thesis using execute_loop_stop[of k h fn w e w1 es pf le] by simp
    next
      case (Inr v)
      with f lt show ?thesis using execute_loop_ok[of k h fn w v w1 es pf le] by simp
    qed
    with Suc.prems(2) have "r = out" "w' = w1" "tr = [Attempt es out]" by auto
    with f lt False show ?thesis using last[of k w es] by simp
  next
    case True
    then obtain e where e: "out = Inl e" "isRetryableError e" by blast
    obtain r2 w2 tr2 where rec:
      "execute_loop pf h fn (Suc k) (Some e) (sleep pf (backoff k) w1) = (r2, w2, tr2)"
      by (cases "execute_loop pf h fn (Suc k) (Some e) (sleep pf (backoff k) w1)") auto
    from execute_loop_retry[OF lt _ e(2), of fn w w1 es pf le] f e(1) rec Suc.prems(2)
    have eqs: "r2 = r" "w2 = w'" "tr = Attempt es (Inl e) # Delay (backoff k) # tr2" by auto
    have n: "n = nat (maxRetries h - int (Suc k))" using Suc.hyps(2) by simp
    have le': "int (Suc k) \<le> maxRetries h" using lt by simp
    have "P (Suc k) (sleep pf (backoff k) w1) tr2"
      using Suc.hyps(1)[OF n le'] rec eqs by simp
    with retry[OF lt _ e(2), of w w1 es tr2] f e(1) eqs show ?thesis by simp
  qed
qed


lemma execute_loop_trace:
  assumes "int k \<le> maxRetries h" and "execute_loop pf h fn k le w = (r, w', tr)"
  shows "1 \<le> attempts tr \<and> int (k + attempts tr) \<le> maxRetries h + 1 \<and>
         length tr = 2 * attempts tr - 1 \<and> (\<exists>es. last tr = Attempt es r) \<and>
         delays tr = map backoff [k ..< k + (attempts tr - 1)]"
  using assms
proof (induction rule: execute_loop_induct)
  case (last k w es)
  then show ?case by simp
next
  case (retry k w e w1 es tr2)
  then obtain n where n: "attempts tr2 = Suc n" by (cases "attempts tr2") auto
  have "[k ..< Suc (k + n)] = k # [Suc k ..< Suc (k + n)]"
    by (rule upt_conv_Cons) simp
  moreover have "tr2 \<noteq> []" using n by auto
  ultimately show ?case using retry n by simp
qed

lemma execute_loop_index:
  assumes "int k \<le> maxRetries h" and "execute_loop pf h fn k le w = (r, w', tr)"
  shows "\<forall>i. Suc i < attempts tr \<longrightarrow>
           tr ! (2 * i + 1) = Delay (backoff (k + i)) \<and>
           (\<exists>es e. tr ! (2 * i) = Attempt es (Inl e) \<and> isRetryableError e)"
  using assms
proof (induction rule: execute_loop_induct)
  case (last k w es)
  then show ?case by simp
next
  case (retry k w e w1 es tr2)
  show ?case
  proof (intro allI impI)
    fix i
    assume "Suc i < attempts (Attempt es (Inl e) # Delay (backoff k) # tr2)"
    then have i: "i < attempts tr2" by simp
    show "(Attempt es (Inl e) # Delay (backoff k) # tr2) ! (2 * i + 1) = Delay (backoff (k + i)) \<and>
          (\<exists>es' e'. (Attempt es (Inl e) # Delay (backoff k) # tr2) ! (2 * i) = Attempt es' (Inl e')
             \<and> isRetryableError e')"
    proof (cases i)
      case 0
      then show ?thesis using retry(3) by simp
    next
      case (Suc j)
      with i have "Suc j < attempts tr2" by simp
      with retry(4) Suc show ?thesis by simp
    qed
  qed
qed

lemma execute_loop_result:
  assumes "int k \<le> maxRetries h" and "execute_loop pf h fn k le w = (r, w', tr)"
  shows "\<exists>s es. fn s = (r, w', es)"
  using assms by (induction rule: execute_loop_induct) auto

lemma execute_loop_always_failing:
  assumes "int k \<le> maxRetries h" and "execute_loop pf h fn k le w = (r, w', tr)"
    and "\<forall>s. \<exists>e. fst (fn s) = Inl e \<and> isRetryableError e"
  shows "attempts tr = nat (maxRetries h - int k) + 1"
  using assms
proof (induction rule: execute_loop_induct)
  case (last k w es)
  from last(4) obtain e where "fst (fn w) = Inl e" "isRetryableError e" by blast
  with last(2,3) have "int k = maxRetries h" by auto
  then show ?case by simp
next
  case (retry k w e w1 es tr2)
  then have "attempts tr2 = nat (maxRetries h - int (Suc k)) + 1" by simp
  with retry(1) show ?case by simp
qed

section \<open>Metadata merge\<close>

text \<open>
  Claim C9. For all metadata fragments \<open>a\<close> and \<open>b\<close> (each an object or \<open>undefined\<close>),
  the merge is a shallow union: a key of the merge has the value of the later fragment
  \<open>b\<close> when \<open>b\<close> has the key, and the value of \<open>a\<close> otherwise; an \<open>undefined\<close> fragment
  contributes nothing; a nested object is replaced as a whole, not merged. In particular
  \<open>merge({a:1,b:2},{b:3,c:4}) = {a:1,b:3,c:4}\<close>, \<open>merge(undefined,{x:1}) = {x:1}\<close>,
  \<open>merge(undefined,undefined) = {}\<close> and \<open>merge({k:{x:1}},{k:{y:2}}) = {k:{y:2}}\<close>.
\<close>

theorem mergeMetadata_shallow_union:
  "mergeMetadata [a, b] k = (case props b k of Some v \<Rightarrow> Some v | None \<Rightarrow> props a k)
   \<and> mergeMetadata [Some [''a'' \<mapsto> JNum 1, ''b'' \<mapsto> JNum 2], Some [''b'' \<mapsto> JNum 3, ''c'' \<mapsto> JNum 4]]
       = [''a'' \<mapsto> JNum 1, ''b'' \<mapsto> JNum 3, ''c'' \<mapsto> JNum 4]
   \<and> mergeMetadata [None, Some [''x'' \<mapsto> JNum 1]] = [''x'' \<mapsto> JNum 1]
   \<and> mergeMetadata [None, None] = (Map.empty :: JSValue MCPMetadata)
   \<and> mergeMetadata [Some [''k'' \<mapsto> JObj [''x'' \<mapsto> JNum 1]], Some [''k'' \<mapsto> JObj [''y'' \<mapsto> JNum 2]]]
       = [''k'' \<mapsto> JObj [''y'' \<mapsto> JNum 2]]"
proof -
  have "mergeMetadata [a, b] = props a ++ props b"
    by (simp add: mergeMetadata_def mergeStep_def props_def split: option.splits)
  then have g: "mergeMetadata [a, b] k = (case props b k of Some v \<Rightarrow> Some v | None \<Rightarrow> props a k)"
    by (simp add: map_add_def split: option.splits)
  have e: "mergeMetadata [Some [''a'' \<mapsto> JNum 1, ''b'' \<mapsto> JNum 2], Some [''b'' \<mapsto> JNum 3, ''c'' \<mapsto> JNum 4]]
       = [''a'' \<mapsto> JNum 1, ''b'' \<mapsto> JNum 3, ''c'' \<mapsto> JNum 4]"
    "mergeMetadata [None, Some [''x'' \<mapsto> JNum 1]] = [''x'' \<mapsto> JNum 1]"
    "mergeMetadata [None, None] = (Map.empty :: JSValue MCPMetadata)"
    "mergeMetadata [Some [''k'' \<mapsto> JObj [''x'' \<mapsto> JNum 1]], Some [''k'' \<mapsto> JObj [''y'' \<mapsto> JNum 2]]]
       = [''k'' \<mapsto> JObj [''y'' \<mapsto> JNum 2]]"
    by (simp_all add: mergeMetadata_def mergeStep_def)
  from g e show ?thesis by blast
qed

section \<open>Attempts of the retry handler\<close>

lemma err500_retryable: "isRetryableError err500"
  by (simp add: err500_def isRetryableError_def)

lemma run_failing:
  "execute idlePlatform \<lparr>maxRetries = 2, retry_debug = False\<rparr> failing 0 =
     (Inl err500, 3, [Attempt [] (Inl err500), Delay 100, Attempt [] (Inl err500), Delay 200, Attempt [] (Inl err500)])"
  by (simp add: execute_def execute_loop_retry execute_loop_stop failing_def err500_retryable backoff_def idlePlatform_def)

lemma run_flaky:
  "execute idlePlatform \<lparr>maxRetries = 3, retry_debug = False\<rparr> flaky 0 =
     (Inr ''success'', 3, [Attempt [] (Inl err500), Delay 100, Attempt [] (Inl err500), Delay 200, Attempt [] (Inr ''success'')])"
  by (simp add: execute_def execute_loop_retry execute_loop_ok flaky_def err500_retryable backoff_def idlePlatform_def)


text \<open>
  Claim C2. For every \<open>maxRetries = r \<ge> 0\<close> and every run of the retry handler:
  if the operation fails with a retryable error on every call, it is called exactly
  \<open>r + 1\<close> times and the run ends with the error of the last call; a call that succeeds
  is the last event of the run and its value is the result (in particular a success of
  the first call ends the run after that one call); the operation is called at least once
  and at most \<open>r + 1\<close> times; and the result and final world are those of a call of the
  operation.
\<close>

theorem execute_attempts:
  assumes "0 \<le> maxRetries h" and "execute pf h fn w = (r, w', tr)"
  shows "((\<forall>s. \<exists>e. fst (fn s) = Inl e \<and> isRetryableError e) \<longrightarrow>
            attempts tr = nat (maxRetries h) + 1 \<and> (\<exists>es e. last tr = Attempt es (Inl e) \<and> r = Inl e))
       \<and> (\<forall>i es v. i < length tr \<and> tr ! i = Attempt es (Inr v) \<longrightarrow> Suc i = length tr \<and> r = Inr v)
       \<and> (\<forall>v w1 es. fn w = (Inr v, w1, es) \<longrightarrow> r = Inr v \<and> w' = w1 \<and> tr = [Attempt es (Inr v)])
       \<and> 1 \<le> attempts tr \<and> attempts tr \<le> nat (maxRetries h) + 1
       \<and> (\<exists>s es. fn s = (r, w', es))"
proof -
  have k: "int 0 \<le> maxRetries h" using assms(1) by simp
  have run: "execute_loop pf h fn 0 None w = (r, w', tr)" using assms(2) by (simp add: execute_def)
  note T = execute_loop_trace[OF k run]
  note I = execute_loop_index[OF k run]
  from execute_loop_result[OF k run] obtain s0 es0 where res: "fn s0 = (r, w', es0)" by blast
  from T obtain esl where lst: "last tr = Attempt esl r" by blast
  have ne: "tr \<noteq> []" using T by auto
  have A: "attempts tr = nat (maxRetries h) + 1 \<and> (\<exists>es e. last tr = Attempt es (Inl e) \<and> r = Inl e)"
    if af: "\<forall>s. \<exists>e. fst (fn s) = Inl e \<and> isRetryableError e"
  proof -
    from af res obtain e where "r = Inl e" by (metis fst_conv)
    with lst execute_loop_always_failing[OF k run af] show ?thesis by simp
  qed
  have B: "Suc i = length tr \<and> r = Inr v" if i: "i < length tr" and at: "tr ! i = Attempt es (Inr v)" for i es v
  proof -
    have len: "length tr = 2 * attempts tr - 1" using T by simp
    have "\<not> Suc (i div 2) < attempts tr"
    proof
      assume lt: "Suc (i div 2) < attempts tr"
      with I have d: "tr ! (2 * (i div 2) + 1) = Delay (backoff (0 + i div 2))"
        and a: "\<exists>es e. tr ! (2 * (i div 2)) = Attempt es (Inl e) \<and> isRetryableError e" by auto
      show False
      proof (cases "even i")
        case True
        then have "2 * (i div 2) = i" by simp
        with a at show False by auto
      next
        case False
        then have "2 * (i div 2) + 1 = i" by (simp add: odd_two_times_div_two_succ)
        with d at show False by simp
      qed
    qed
    with i len have "Suc i = length tr" by presburger
    then have "last tr = tr ! i" using ne by (metis diff_Suc_1 last_conv_nth)
    with lst at \<open>Suc i = length tr\<close> show ?thesis by simp
  qed
  have C: "r = Inr v \<and> w' = w1 \<and> tr = [Attempt es (Inr v)]" if "fn w = (Inr v, w1, es)" for v w1 es
    using execute_loop_ok[of 0 h fn w v w1 es pf None] k that run by simp
  from T have D: "1 \<le> attempts tr \<and> attempts tr \<le> nat (maxRetries h) + 1" by auto
  from A B C D res show ?thesis by blast
qed

theorem execute_attempts_witness:
  "0 \<le> maxRetries \<lparr>maxRetries = 2, retry_debug = False\<rparr>
   \<and> (\<forall>s. \<exists>e. fst (failing s) = Inl e \<and> isRetryableError e)
   \<and> (\<exists>r w' tr. execute idlePlatform \<lparr>maxRetries = 2, retry_debug = False\<rparr> failing 0 = (r, w', tr)
        \<and> attempts tr = 3 \<and> r = Inl err500)
   \<and> 0 \<le> maxRetries \<lparr>maxRetries = 3, retry_debug = False\<rparr>
   \<and> (\<exists>r w' tr. execute idlePlatform \<lparr>maxRetries = 3, retry_debug = False\<rparr> flaky 0 = (r, w', tr)
        \<and> 4 < length tr \<and> tr ! 4 = Attempt [] (Inr ''success'') \<and> Suc 4 = length tr \<and> r = Inr ''success'')
   \<and> flaky 2 = (Inr ''success'', 3, [])
   \<and> execute idlePlatform \<lparr>maxRetries = 3, retry_debug = False\<rparr> flaky 2 =
        (Inr ''success'', 3, [Attempt [] (Inr ''success'')])"
proof -
  have f: "\<forall>s. \<exists>e. fst (failing s) = Inl e \<and> isRetryableError e"
    by (simp add: failing_def err500_retryable)
  have h: "0 \<le> maxRetries \<lparr>maxRetries = 2, retry_debug = False\<rparr>" by simp
  have h3: "0 \<le> maxRetries \<lparr>maxRetries = 3, retry_debug = False\<rparr>" by simp
  from execute_attempts[OF h run_failing] f
  have 1: "attempts [Attempt ([]::unit list) (Inl err500 :: JSError + string), Delay 100, Attempt [] (Inl err500), Delay 200, Attempt [] (Inl err500)] = nat 2 + 1"
    by simp
  from execute_attempts[OF h3 run_flaky]
  have 2: "Suc 4 = length [Attempt ([]::unit list) (Inl err500), Delay 100, Attempt [] (Inl err500), Delay 200, Attempt [] (Inr ''success'')]"
    by simp
  have fl: "flaky 2 = (Inr ''success'', 3, [])" by (simp add: flaky_def)
  obtain r w' tr where run3:
    "execute idlePlatform \<lparr>maxRetries = 3, retry_debug = False\<rparr> flaky 2 = (r, w', tr)"
    by (metis prod.collapse)
  from execute_attempts[OF h3 run3] fl
  have "r = Inr ''success'' \<and> w' = 3 \<and> tr = [Attempt [] (Inr ''success'')]" by blast
  with run3 have 3: "execute idlePlatform \<lparr>maxRetries = 3, retry_debug = False\<rparr> flaky 2 =
        (Inr ''success'', 3, [Attempt [] (Inr ''success'')])" by simp
  show ?thesis using h h3 f 1 2 3 fl run_failing run_flaky by simp
qed

section \<open>Backoff schedule\<close>

lemma execute_loop_exhausted:
  assumes "int k \<le> maxRetries h" and "execute_loop pf h fn k le w = (r, w', tr)"
    and "r = Inl e" and "isRetryableError e"
  shows "int (k + attempts tr) = maxRetries h + 1"
  using assms by (induction rule: execute_loop_induct) auto

lemma execute_loop_replay:
  assumes "int k \<le> maxRetries h" and "execute_loop pf h fn k le w = (r, w', tr)"
  shows "replay pf fn tr w = Some w'"
  using assms by (induction rule: execute_loop_induct) auto

lemma backoff_values:
  "map backoff [0 ..< 7] = [100, 200, 400, 800, 1600, 3000, 3000]"
  by (simp add: backoff_def upt_rec)

lemma backoff_cap: "5 \<le> i \<Longrightarrow> backoff i = 3000"
proof -
  assume "5 \<le> i"
  then have "(2::nat) ^ 5 \<le> 2 ^ i" by (intro power_increasing) auto
  then show ?thesis by (simp add: backoff_def)
qed

lemma run_clock4:
  "execute clockPlatform \<lparr>maxRetries = 4, retry_debug = False\<rparr> instantFailure 0 =
     (Inl err500, 1500,
      [Attempt [] (Inl err500), Delay 100, Attempt [] (Inl err500), Delay 200,
       Attempt [] (Inl err500), Delay 400, Attempt [] (Inl err500), Delay 800,
       Attempt [] (Inl err500)])"
  by (simp add: execute_def execute_loop_retry execute_loop_stop instantFailure_def
      err500_retryable backoff_def clockPlatform_def)

text \<open>
  Claim C4. For every \<open>maxRetries \<ge> 0\<close> and every run of the retry handler, with the
  calls of the operation numbered from 0: each call \<open>i\<close> that is followed by another call
  failed with a retryable error, and exactly one delay stands between it and call
  \<open>i + 1\<close>, of \<open>min(100 * 2^i, 3000)\<close> milliseconds; these are all the delays of the run
  (the trace has one delay fewer than calls, and ends with the call whose outcome is the
  result, so no delay follows a success or precedes the propagation of an error); the
  delays are awaited: replaying the trace from the initial world, each call by the
  operation and each delay by the platform's \<open>sleep\<close>, reproduces the recorded calls and
  ends in the final world of the run; a run that ends with a retryable error has used all
  \<open>maxRetries + 1\<close> calls; and the delays are 100, 200, 400, 800, 1600, then 3000 from
  call 5 on.
\<close>

theorem execute_backoff:
  assumes "0 \<le> maxRetries h" and "execute pf h fn w = (r, w', tr)"
  shows "(\<forall>i. Suc i < attempts tr \<longrightarrow>
            (\<exists>es e. tr ! (2 * i) = Attempt es (Inl e) \<and> isRetryableError e) \<and>
            tr ! (2 * i + 1) = Delay (min (100 * 2 ^ i) 3000))
       \<and> delays tr = map (\<lambda>i. min (100 * 2 ^ i) 3000) [0 ..< attempts tr - 1]
       \<and> length tr = 2 * attempts tr - 1
       \<and> (\<exists>es. last tr = Attempt es r)
       \<and> replay pf fn tr w = Some w'
       \<and> (\<forall>e. r = Inl e \<and> isRetryableError e \<longrightarrow> attempts tr = nat (maxRetries h) + 1)
       \<and> map backoff [0 ..< 7] = [100, 200, 400, 800, 1600, 3000, 3000]
       \<and> (\<forall>i. 5 \<le> i \<longrightarrow> backoff i = 3000)"
proof -
  have k: "int 0 \<le> maxRetries h" using assms(1) by simp
  have run: "execute_loop pf h fn 0 None w = (r, w', tr)" using assms(2) by (simp add: execute_def)
  have b: "backoff = (\<lambda>i. min (100 * 2 ^ i) 3000)" by (simp add: backoff_def fun_eq_iff)
  from execute_loop_index[OF k run]
  have A: "\<forall>i. Suc i < attempts tr \<longrightarrow>
            (\<exists>es e. tr ! (2 * i) = Attempt es (Inl e) \<and> isRetryableError e) \<and>
            tr ! (2 * i + 1) = Delay (min (100 * 2 ^ i) 3000)"
    by (simp add: backoff_def)
  from execute_loop_trace[OF k run]
  have B: "delays tr = map (\<lambda>i. min (100 * 2 ^ i) 3000) [0 ..< attempts tr - 1]"
    and C: "length tr = 2 * attempts tr - 1" and D: "\<exists>es. last tr = Attempt es r"
    by (simp_all add: b)
  have E: "\<forall>e. r = Inl e \<and> isRetryableError e \<longrightarrow> attempts tr = nat (maxRetries h) + 1"
    using execute_loop_exhausted[OF k run] assms(1) by fastforce
  have F: "\<forall>i. 5 \<le> i \<longrightarrow> backoff i = 3000" using backoff_cap by blast
  show ?thesis by (intro conjI A B C D execute_loop_replay[OF k run] E backoff_values F)
qed

theorem execute_backoff_witness:
  "0 \<le> maxRetries \<lparr>maxRetries = 4, retry_debug = False\<rparr>
   \<and> (\<exists>r tr. execute clockPlatform \<lparr>maxRetries = 4, retry_debug = False\<rparr> instantFailure 0 =
          (r, 1500, tr)
        \<and> Suc 3 < attempts tr \<and> tr ! (2 * 3 + 1) = Delay 800
        \<and> delays tr = [100, 200, 400, 800]
        \<and> replay clockPlatform instantFailure tr 0 = Some 1500
        \<and> r = Inl err500 \<and> isRetryableError err500 \<and> attempts tr = 5)
   \<and> (5::nat) \<le> 9 \<and> backoff 9 = 3000"
proof -
  have h: "0 \<le> maxRetries \<lparr>maxRetries = 4, retry_debug = False\<rparr>" by simp
  note T = execute_backoff[OF h run_clock4]
  from T have 1: "[Attempt ([]::unit list) (Inl err500 :: JSError + string), Delay 100, Attempt [] (Inl err500), Delay 200,
       Attempt [] (Inl err500), Delay 400, Attempt [] (Inl err500), Delay 800,
       Attempt [] (Inl err500)] ! (2 * 3 + 1) = Delay (min (100 * 2 ^ 3) 3000)"
    by simp
  from T have 2: "backoff 9 = 3000" by simp
  from T have 3: "replay clockPlatform instantFailure
      [Attempt ([]::unit list) (Inl err500 :: JSError + string), Delay 100, Attempt [] (Inl err500), Delay 200,
       Attempt [] (Inl err500), Delay 400, Attempt [] (Inl err500), Delay 800,
       Attempt [] (Inl err500)] 0 = Some 1500"
    by blast
  show ?thesis using h 1 2 3 run_clock4 err500_retryable by simp
qed

section \<open>Retryability classifier\<close>

lemma str_includes_iff: "str_includes s t \<longleftrightarrow> (\<exists>ps ss. s = ps @ t @ ss)"
proof (induction s)
  case Nil
  then show ?case by auto
next
  case (Cons c cs)
  show ?case
  proof
    assume "str_includes (c # cs) t"
    then consider "take (length t) (c # cs) = t" | "str_includes cs t" by auto
    then show "\<exists>ps ss. c # cs = ps @ t @ ss"
    proof cases
      case 1
      then have "c # cs = [] @ t @ drop (length t) (c # cs)"
        by (metis append_Nil append_take_drop_id)
      then show ?thesis by blast
    next
      case 2
      with Cons obtain ps ss where "cs = ps @ t @ ss" by blast
      then have "c # cs = (c # ps) @ t @ ss" by simp
      then show ?thesis by blast
    qed
  next
    assume "\<exists>ps ss. c # cs = ps @ t @ ss"
    then obtain ps ss where e: "c # cs = ps @ t @ ss" by blast
    show "str_includes (c # cs) t"
    proof (cases ps)
      case Nil
      with e have "take (length t) (c # cs) = t" by simp
      then show ?thesis by simp
    next
      case (Cons p ps')
      with e have "cs = ps' @ t @ ss" by simp
      with Cons.IH show ?thesis by auto
    qed
  qed
qed

lemma isRetryableError_iff:
  "isRetryableError e \<longleftrightarrow>
     name e = ''TypeError'' \<or> (\<exists>m. message e = Some m \<and> str_includes m ''fetch'') \<or>
     (\<forall>s. status e = Some s \<longrightarrow> \<not> (400 \<le> s \<and> s < 500))"
  by (auto simp: isRetryableError_def split: option.splits)

lemma testConfig_simps:
  "retries testConfig = 3" "timeout testConfig = 5000" "debug testConfig = False"
  "apiKey testConfig = ''test-key''" "endpoint testConfig = DEFAULT_ENDPOINT"
  by (simp_all add: testConfig_def MCPTracker_def)

lemma httpError_badRequest:
  "httpError badRequest =
     \<lparr>name = ''Error'', message = Some ''HTTP 400: could not fetch record'', status = Some 400\<rparr>"
  by (simp add: httpError_def badRequest_def toString_int_def toString_nat.simps digit_def)

lemma badRequest_retryable: "isRetryableError (httpError badRequest)"
  by (simp add: httpError_badRequest isRetryableError_def)

lemma sendAttempt_badRequest:
  "sendAttempt badRequestPlatform config p w =
     (Inl (httpError badRequest), Suc w,
      [SetTimeout (timeout config), FetchCall (request config p), ClearTimeout, ClearTimeout])"
proof -
  have 1: "sendCatch config (httpError badRequest) = httpError badRequest"
    by (simp add: sendCatch_def httpError_badRequest)
  have 2: "\<not> ok badRequest" by (simp add: badRequest_def)
  have 3: "body_text badRequest = Inr (Returns ''could not fetch record'')"
    by (simp add: badRequest_def)
  have 4: "stringifyThrows badRequestPlatform md = None" for md
    by (simp add: stringifyThrows_def badRequestPlatform_def split: option.splits)
  have 5: "fetch badRequestPlatform rq w = (Resolves badRequest, Suc w)" for rq
    by (simp add: badRequestPlatform_def)
  show ?thesis by (simp add: sendAttempt_def 1 2 3 4 5)
qed

lemma isRetryableError_client_error:
  assumes "status e = Some s" and "400 \<le> s" and "s < 500"
    and "name e \<noteq> ''TypeError''" and "\<forall>m. message e = Some m \<longrightarrow> \<not> str_includes m ''fetch''"
  shows "\<not> isRetryableError e"
  using assms by (auto simp: isRetryableError_iff)

lemma isRetryableError_otherwise:
  assumes "\<forall>s. status e = Some s \<longrightarrow> \<not> (400 \<le> s \<and> s < 500)"
  shows "isRetryableError e"
  using assms by (auto simp: isRetryableError_iff)

text \<open>
  Claim C3. The claim: every error with an HTTP status in \<open>[400, 500)\<close> is classified
  non-retryable and ends the retry handler after exactly one attempt, whatever the
  configured retries. The code tests the name and the message of the error before its
  status, so an error with status 400 whose message contains \<^verbatim>\<open>fetch\<close> is classified
  retryable. The transport builds such an error itself: the message of an HTTP error
  embeds the response body. Evaluated here: a 400 response with the body
  \<^verbatim>\<open>could not fetch record\<close>, sent with the default configuration (3 retries), is
  attempted 4 times.
\<close>

theorem isRetryableError_retries_http_400:
  "status (httpError badRequest) = Some 400
   \<and> message (httpError badRequest) = Some ''HTTP 400: could not fetch record''
   \<and> isRetryableError (httpError badRequest)
   \<and> fst (sendEvent badRequestPlatform testConfig invocationPayload 0) = Inl (httpError badRequest)
   \<and> attempts (snd (snd (sendEvent badRequestPlatform testConfig invocationPayload 0))) = 4"
proof -
  have s: "sleep badRequestPlatform d w = w" for d w by (simp add: badRequestPlatform_def)
  have "sendEvent badRequestPlatform testConfig invocationPayload 0 =
     (Inl (httpError badRequest), 4,
      [Attempt [SetTimeout 5000, FetchCall (request testConfig invocationPayload), ClearTimeout, ClearTimeout] (Inl (httpError badRequest)), Delay 100,
       Attempt [SetTimeout 5000, FetchCall (request testConfig invocationPayload), ClearTimeout, ClearTimeout] (Inl (httpError badRequest)), Delay 200,
       Attempt [SetTimeout 5000, FetchCall (request testConfig invocationPayload), ClearTimeout, ClearTimeout] (Inl (httpError badRequest)), Delay 400,
       Attempt [SetTimeout 5000, FetchCall (request testConfig invocationPayload), ClearTimeout, ClearTimeout] (Inl (httpError badRequest))])"
    by (simp add: sendEvent_def execute_def execute_loop_retry execute_loop_stop
        sendAttempt_badRequest badRequest_retryable testConfig_simps s backoff_def)
  then show ?thesis using badRequest_retryable by (simp add: httpError_badRequest)
qed

section \<open>Transport: timeout\<close>

lemma timeoutError_retryable: "isRetryableError (timeoutError config)"
  by (simp add: isRetryableError_def timeoutError_def Error_def)

lemma sendAttempt_pending:
  "stringifyThrows pf (metadata p) = None \<Longrightarrow>
   fetch pf (request config p) w = (Pending, w1) \<Longrightarrow>
   sendAttempt pf config p w =
     (Inl (timeoutError config), w1,
      [SetTimeout (timeout config), FetchCall (request config p), TimerFired, ClearTimeout])"
  by (simp add: sendAttempt_def sendCatch_def abortError_def)

text \<open>The trace of an attempt, path by path.\<close>

lemma sendAttempt_trace:
  "snd (snd (sendAttempt pf config p w)) =
     (case stringifyThrows pf (metadata p) of
        Some err \<Rightarrow> [SetTimeout (timeout config), ClearTimeout]
      | None \<Rightarrow>
          (case fst (fetch pf (request config p) w) of
             Pending \<Rightarrow>
               [SetTimeout (timeout config), FetchCall (request config p), TimerFired, ClearTimeout]
           | Rejects err \<Rightarrow>
               [SetTimeout (timeout config), FetchCall (request config p), ClearTimeout]
           | Resolves response \<Rightarrow>
               if fst (sendAttempt pf config p w) = Inr Stalls
               then [SetTimeout (timeout config), FetchCall (request config p), ClearTimeout]
               else [SetTimeout (timeout config), FetchCall (request config p),
                     ClearTimeout, ClearTimeout]))"
  by (cases "fetch pf (request config p) w")
     (auto simp: sendAttempt_def Let_def
           split: option.splits FetchOutcome.splits sum.splits Completion.splits)

lemma sendAttempt_timer:
  "\<exists>es. snd (snd (sendAttempt pf config p w)) = SetTimeout (timeout config) # es @ [ClearTimeout]
        \<and> set es \<subseteq> {FetchCall (request config p), TimerFired, ClearTimeout}"
proof -
  let ?f = "FetchCall (request config p)"
  let ?t = "snd (snd (sendAttempt pf config p w))"
  have "?t = SetTimeout (timeout config) # [] @ [ClearTimeout]
      \<or> ?t = SetTimeout (timeout config) # [?f, TimerFired] @ [ClearTimeout]
      \<or> ?t = SetTimeout (timeout config) # [?f] @ [ClearTimeout]
      \<or> ?t = SetTimeout (timeout config) # [?f, ClearTimeout] @ [ClearTimeout]"
    by (simp add: sendAttempt_trace split: option.splits FetchOutcome.splits)
  then consider
      "?t = SetTimeout (timeout config) # [] @ [ClearTimeout]"
    | "?t = SetTimeout (timeout config) # [?f, TimerFired] @ [ClearTimeout]"
    | "?t = SetTimeout (timeout config) # [?f] @ [ClearTimeout]"
    | "?t = SetTimeout (timeout config) # [?f, ClearTimeout] @ [ClearTimeout]"
    by blast
  then show ?thesis
  proof cases
    case 1 then show ?thesis by (intro exI[of _ "[]"]) simp
  next
    case 2 then show ?thesis by (intro exI[of _ "[?f, TimerFired]"]) simp
  next
    case 3 then show ?thesis by (intro exI[of _ "[?f]"]) simp
  next
    case 4 then show ?thesis by (intro exI[of _ "[?f, ClearTimeout]"]) simp
  qed
qed

lemma sendAttempt_timer_fires:
  "TimerFired \<in> set (snd (snd (sendAttempt pf config p w))) \<longleftrightarrow>
     stringifyThrows pf (metadata p) = None \<and> fst (fetch pf (request config p) w) = Pending"
  by (simp add: sendAttempt_trace split: option.splits FetchOutcome.splits)

lemma sendEvent_always_failing:
  assumes "0 \<le> retries config"
    and "\<forall>s. \<exists>e. fst (sendAttempt pf config p s) = Inl e \<and> isRetryableError e"
  shows "attempts (snd (snd (sendEvent pf config p w))) = nat (retries config) + 1"
proof -
  obtain r w' tr where run: "sendEvent pf config p w = (r, w', tr)"
    by (cases "sendEvent pf config p w") auto
  let ?h = "\<lparr>maxRetries = retries config, retry_debug = debug config\<rparr>"
  have k: "int 0 \<le> maxRetries ?h" using assms(1) by simp
  have "execute_loop pf ?h (sendAttempt pf config p) 0 None w = (r, w', tr)"
    using run by (simp add: sendEvent_def execute_def)
  from execute_loop_always_failing[OF k this assms(2)] run show ?thesis by simp
qed

lemma testConfig_timeoutError: "timeoutError testConfig = Error ''Request timeout after 5000ms''"
  by (simp add: timeoutError_def testConfig_simps toString_nat.simps digit_def)

lemma sendAttempt_stallingPlatform:
  "sendAttempt stallingPlatform config p w =
     (Inr Stalls, Suc w, [SetTimeout (timeout config), FetchCall (request config p), ClearTimeout])"
  by (simp add: sendAttempt_def stallingPlatform_def stalledResponse_def stringifyThrows_def
      split: option.splits)

text \<open>
  Claim C8, as stated: every delivery attempt whose request has not completed within the
  configured timeout is cancelled and ends in the timeout error. The code clears the timer
  as soon as \<^verbatim>\<open>fetch\<close> resolves, before it reads the body, so the timeout covers the
  arrival of the response only. At this input (every request is answered with status 200
  and a body that never arrives; default configuration) the attempt never completes, the
  timer never fires, the outcome is no timeout error, and the event is attempted once and
  never retried.
\<close>

theorem sendAttempt_body_stall_counterexample:
  "fst (sendAttempt stallingPlatform testConfig invocationPayload 0) = Inr Stalls
   \<and> TimerFired \<notin> set (snd (snd (sendAttempt stallingPlatform testConfig invocationPayload 0)))
   \<and> fst (sendAttempt stallingPlatform testConfig invocationPayload 0) \<noteq> Inl (timeoutError testConfig)
   \<and> fst (sendEvent stallingPlatform testConfig invocationPayload 0) = Inr Stalls
   \<and> attempts (snd (snd (sendEvent stallingPlatform testConfig invocationPayload 0))) = 1"
  by (simp add: sendAttempt_stallingPlatform sendEvent_def execute_def execute_loop_ok
      testConfig_simps)

text \<open>
  Claim C8, amended. A delivery attempt whose \<^verbatim>\<open>fetch\<close> call is still pending when the
  timeout timer fires is cancelled (the timer callback aborts it) and its outcome is the
  timeout error, whose message is \<^verbatim>\<open>Request timeout after <timeout>ms\<close> and so includes
  the configured timeout value; this error is classified retryable, so that with a network
  that never answers, a payload that serialises and \<open>retries \<ge> 0\<close> the event is attempted
  \<open>retries + 1\<close> times. The timer fires in an attempt exactly when the request was made
  and its \<^verbatim>\<open>fetch\<close> is still pending at the timeout: not when \<^verbatim>\<open>JSON.stringify\<close> throws,
  and not once \<^verbatim>\<open>fetch\<close> has resolved or rejected (reading the body is not under the
  timeout). On every path the trace of the attempt starts with the one \<open>SetTimeout\<close> of
  the configured timeout and ends with \<open>ClearTimeout\<close>: the timer is cleared when the
  attempt settles, and already cleared when the body read never settles.
\<close>

theorem sendAttempt_timeout:
  "(\<forall>w1. stringifyThrows pf (metadata p) = None
          \<and> fetch pf (request config p) w = (Pending, w1) \<longrightarrow>
      sendAttempt pf config p w =
        (Inl (timeoutError config), w1,
         [SetTimeout (timeout config), FetchCall (request config p), TimerFired, ClearTimeout]))
   \<and> message (timeoutError config) =
        Some (''Request timeout after '' @ toString_nat (timeout config) @ ''ms'')
   \<and> str_includes (''Request timeout after '' @ toString_nat (timeout config) @ ''ms'')
        (toString_nat (timeout config))
   \<and> isRetryableError (timeoutError config)
   \<and> ((\<forall>rq s. fst (fetch pf rq s) = Pending) \<and> stringifyThrows pf (metadata p) = None
        \<and> 0 \<le> retries config \<longrightarrow>
        attempts (snd (snd (sendEvent pf config p w))) = nat (retries config) + 1)
   \<and> (TimerFired \<in> set (snd (snd (sendAttempt pf config p w))) \<longleftrightarrow>
        stringifyThrows pf (metadata p) = None \<and> fst (fetch pf (request config p) w) = Pending)
   \<and> (\<exists>es. snd (snd (sendAttempt pf config p w)) =
              SetTimeout (timeout config) # es @ [ClearTimeout]
            \<and> set es \<subseteq> {FetchCall (request config p), TimerFired, ClearTimeout})"
proof -
  have A: "\<forall>w1. stringifyThrows pf (metadata p) = None
          \<and> fetch pf (request config p) w = (Pending, w1) \<longrightarrow>
      sendAttempt pf config p w =
        (Inl (timeoutError config), w1,
         [SetTimeout (timeout config), FetchCall (request config p), TimerFired, ClearTimeout])"
    by (intro allI impI) (erule conjE, rule sendAttempt_pending)
  have B: "message (timeoutError config) =
        Some (''Request timeout after '' @ toString_nat (timeout config) @ ''ms'')"
    by (simp add: timeoutError_def Error_def)
  have C: "str_includes (''Request timeout after '' @ toString_nat (timeout config) @ ''ms'')
        (toString_nat (timeout config))"
    unfolding str_includes_iff by blast
  have D: "attempts (snd (snd (sendEvent pf config p w))) = nat (retries config) + 1"
    if pend: "\<forall>rq s. fst (fetch pf rq s) = Pending" and ser: "stringifyThrows pf (metadata p) = None"
      and r: "0 \<le> retries config"
  proof -
    have "\<exists>e. fst (sendAttempt pf config p s) = Inl e \<and> isRetryableError e" for s
    proof -
      obtain w1 where "fetch pf (request config p) s = (Pending, w1)"
        using pend by (metis prod.collapse)
      from sendAttempt_pending[OF ser this] show ?thesis by (simp add: timeoutError_retryable)
    qed
    then have "\<forall>s. \<exists>e. fst (sendAttempt pf config p s) = Inl e \<and> isRetryableError e" ..
    then show ?thesis by (rule sendEvent_always_failing[OF r])
  qed
  have E: "(\<forall>rq s. fst (fetch pf rq s) = Pending) \<and> stringifyThrows pf (metadata p) = None
        \<and> 0 \<le> retries config \<longrightarrow>
        attempts (snd (snd (sendEvent pf config p w))) = nat (retries config) + 1"
    using D by simp
  show ?thesis
    by (intro conjI A B C E timeoutError_retryable sendAttempt_timer_fires sendAttempt_timer)
qed

lemma toString_5000: "toString_nat 5000 = ''5000''"
  by (simp add: toString_nat.simps digit_def)

theorem sendAttempt_timeout_witness:
  "stringifyThrows idlePlatform (metadata invocationPayload) = None
   \<and> fetch idlePlatform (request testConfig invocationPayload) 0 = (Pending, 1)
   \<and> sendAttempt idlePlatform testConfig invocationPayload 0 =
        (Inl (Error ''Request timeout after 5000ms''), 1,
         [SetTimeout 5000, FetchCall (request testConfig invocationPayload), TimerFired, ClearTimeout])
   \<and> str_includes ''Request timeout after 5000ms'' ''5000''
   \<and> isRetryableError (Error ''Request timeout after 5000ms'')
   \<and> (\<forall>rq s. fst (fetch idlePlatform rq s) = Pending) \<and> 0 \<le> retries testConfig
   \<and> attempts (snd (snd (sendEvent idlePlatform testConfig invocationPayload 0))) = 4"
proof -
  have ser: "stringifyThrows idlePlatform (metadata invocationPayload) = None"
    by (simp add: stringifyThrows_def invocationPayload_def)
  have f: "fetch idlePlatform (request testConfig invocationPayload) 0 = (Pending, 1)"
    by (simp add: idlePlatform_def)
  have p: "\<forall>rq s. fst (fetch idlePlatform rq s) = Pending" by (simp add: idlePlatform_def)
  note t = testConfig_timeoutError
  note T = sendAttempt_timeout[of idlePlatform invocationPayload testConfig 0]
  from T[THEN conjunct1] ser f have 1: "sendAttempt idlePlatform testConfig invocationPayload 0 =
        (Inl (timeoutError testConfig), 1,
         [SetTimeout (timeout testConfig), FetchCall (request testConfig invocationPayload), TimerFired, ClearTimeout])"
    by blast
  from T[THEN conjunct2, THEN conjunct2, THEN conjunct1]
  have 2: "str_includes (''Request timeout after '' @ toString_nat (timeout testConfig) @ ''ms'')
        (toString_nat (timeout testConfig))" .
  from T[THEN conjunct2, THEN conjunct2, THEN conjunct2, THEN conjunct1]
  have 3: "isRetryableError (timeoutError testConfig)" .
  from T[THEN conjunct2, THEN conjunct2, THEN conjunct2, THEN conjunct2, THEN conjunct1] p ser
  have 4: "attempts (snd (snd (sendEvent idlePlatform testConfig invocationPayload 0))) = nat (retries testConfig) + 1"
    by (simp add: testConfig_simps)
  from 1 have a1: "sendAttempt idlePlatform testConfig invocationPayload 0 =
        (Inl (Error ''Request timeout after 5000ms''), 1,
         [SetTimeout 5000, FetchCall (request testConfig invocationPayload), TimerFired, ClearTimeout])"
    by (simp add: t testConfig_simps)
  from 2 have a2: "str_includes ''Request timeout after 5000ms'' ''5000''"
    by (simp only: testConfig_simps toString_5000) simp
  from 3 have a3: "isRetryableError (Error ''Request timeout after 5000ms'')" by (simp add: t)
  from 4 have a4: "attempts (snd (snd (sendEvent idlePlatform testConfig invocationPayload 0))) = 4"
    by (simp add: testConfig_simps)
  show ?thesis using ser f p a1 a2 a3 a4 by (simp add: testConfig_simps)
qed

section \<open>track never rejects\<close>

lemma track_eq:
  "track pf config toolName eventType md durationMs w =
     (let payload = \<lparr>tool_name = toolName, event_type = eventType,
                      duration_ms = durationMs, metadata = md\<rparr>;
          run = sendEvent pf config payload w
      in (Inr (case fst run of
                 Inr (Returns data) \<Rightarrow> Returns \<lparr>success = True, error = None\<rparr>
               | Inr Stalls \<Rightarrow> Stalls
               | Inl err \<Rightarrow> Returns \<lparr>success = False, error = Some err\<rparr>),
          fst (snd run), [Delivery payload (snd (snd run))]))"
  by (simp add: track_def Let_def split: prod.splits sum.splits Completion.splits)

lemma track_resolves:
  "\<exists>res. fst (track pf config toolName eventType md durationMs w) = Inr res"
  by (simp add: track_eq Let_def)

lemma sendEvent_transport_down:
  assumes "\<forall>s. \<exists>e. fst (sendAttempt pf config p s) = Inl e"
  shows "\<exists>e. fst (sendEvent pf config p w) = Inl e"
proof -
  obtain r w' tr where run: "sendEvent pf config p w = (r, w', tr)"
    by (cases "sendEvent pf config p w") auto
  let ?h = "\<lparr>maxRetries = retries config, retry_debug = debug config\<rparr>"
  have loop: "execute_loop pf ?h (sendAttempt pf config p) 0 None w = (r, w', tr)"
    using run by (simp add: sendEvent_def execute_def)
  show ?thesis
  proof (cases "0 \<le> retries config")
    case True
    then have k: "int 0 \<le> maxRetries ?h" by simp
    from execute_loop_result[OF k loop] obtain s es where "sendAttempt pf config p s = (r, w', es)"
      by blast
    with assms obtain e where "r = Inl e" by (metis fst_conv)
    with run show ?thesis by simp
  next
    case False
    then have "\<not> int 0 \<le> maxRetries ?h" by simp
    from execute_loop_exit[OF this, of pf "sendAttempt pf config p" None w] loop
    have "r = Inl (Error ''Unexpected error in retry handler'')" by simp
    with run show ?thesis by simp
  qed
qed

subsection \<open>A pipeline whose response bodies arrive always settles\<close>

text \<open>
  The only promise of the pipeline that may never settle is the reading of a response
  body: a pending \<^verbatim>\<open>fetch\<close> is aborted by the timer, and the delays of the retry handler
  return. So on a platform where the body of every response arrives (or fails), a
  delivery attempt, \<open>sendEvent\<close> and \<open>track\<close> always settle.
\<close>

lemma sendAttempt_settles:
  assumes "\<forall>rq s resp s'. fetch pf rq s = (Resolves resp, s') \<longrightarrow>
             body_text resp \<noteq> Inr Stalls \<and> body_json resp \<noteq> Inr Stalls"
  shows "fst (sendAttempt pf config p w) \<noteq> Inr Stalls"
proof (cases "fetch pf (request config p) w")
  case (Pair out w1)
  show ?thesis
  proof (cases out)
    case (Resolves resp)
    with Pair assms have "body_text resp \<noteq> Inr Stalls" "body_json resp \<noteq> Inr Stalls"
      by blast+
    with Pair Resolves show ?thesis
      by (auto simp: sendAttempt_def Let_def split: option.splits sum.splits Completion.splits)
  next
    case (Rejects err)
    with Pair show ?thesis
      by (simp add: sendAttempt_def Let_def split: option.splits)
  next
    case Pending
    with Pair show ?thesis
      by (simp add: sendAttempt_def Let_def split: option.splits)
  qed
qed

lemma sendEvent_settles:
  assumes "\<forall>rq s resp s'. fetch pf rq s = (Resolves resp, s') \<longrightarrow>
             body_text resp \<noteq> Inr Stalls \<and> body_json resp \<noteq> Inr Stalls"
  shows "fst (sendEvent pf config p w) \<noteq> Inr Stalls"
proof -
  obtain r w' tr where run: "sendEvent pf config p w = (r, w', tr)"
    by (cases "sendEvent pf config p w") auto
  let ?h = "\<lparr>maxRetries = retries config, retry_debug = debug config\<rparr>"
  have loop: "execute_loop pf ?h (sendAttempt pf config p) 0 None w = (r, w', tr)"
    using run by (simp add: sendEvent_def execute_def)
  show ?thesis
  proof (cases "0 \<le> retries config")
    case True
    then have k: "int 0 \<le> maxRetries ?h" by simp
    from execute_loop_result[OF k loop] obtain s es where "sendAttempt pf config p s = (r, w', es)"
      by blast
    with sendAttempt_settles[OF assms, of config p s] have "r \<noteq> Inr Stalls" by simp
    with run show ?thesis by simp
  next
    case False
    then have "\<not> int 0 \<le> maxRetries ?h" by simp
    from execute_loop_exit[OF this, of pf "sendAttempt pf config p" None w] loop
    have "r = Inl (Error ''Unexpected error in retry handler'')" by simp
    with run show ?thesis by simp
  qed
qed

lemma track_settles:
  assumes "\<forall>rq s resp s'. fetch pf rq s = (Resolves resp, s') \<longrightarrow>
             body_text resp \<noteq> Inr Stalls \<and> body_json resp \<noteq> Inr Stalls"
  shows "\<exists>res. fst (track pf config toolName eventType md durationMs w) = Inr (Returns res)"
    and "\<exists>res. fst (trackInvocation pf config toolName md w) = Inr (Returns res)"
    and "\<exists>res. fst (trackSuccess pf config toolName md durationMs w) = Inr (Returns res)"
    and "\<exists>res. fst (trackFailure pf config toolName md durationMs w) = Inr (Returns res)"
proof -
  have "\<exists>res. fst (track pf config toolName et md d w) = Inr (Returns res)" for et d
    using sendEvent_settles[OF assms, of config
        "\<lparr>tool_name = toolName, event_type = et, duration_ms = d, metadata = md\<rparr>" w]
    by (auto simp: track_eq Let_def split: sum.splits Completion.splits)
  then show "\<exists>res. fst (track pf config toolName eventType md durationMs w) = Inr (Returns res)"
    and "\<exists>res. fst (trackInvocation pf config toolName md w) = Inr (Returns res)"
    and "\<exists>res. fst (trackSuccess pf config toolName md durationMs w) = Inr (Returns res)"
    and "\<exists>res. fst (trackFailure pf config toolName md durationMs w) = Inr (Returns res)"
    by (simp_all add: trackInvocation_def trackSuccess_def trackFailure_def)
qed

lemma bodies_networkDown:
  "\<forall>rq s resp s'. fetch networkDown rq s = (Resolves resp, s') \<longrightarrow>
     body_text resp \<noteq> Inr Stalls \<and> body_json resp \<noteq> Inr Stalls"
  by (simp add: networkDown_def)

lemma bodies_okPlatform:
  "\<forall>rq s resp s'. fetch okPlatform rq s = (Resolves resp, s') \<longrightarrow>
     body_text resp \<noteq> Inr Stalls \<and> body_json resp \<noteq> Inr Stalls"
  by (auto simp: okPlatform_def okResponse_def)

text \<open>
  Claim C1. For every tool name, event type, metadata and duration, and for every
  behaviour of the platform (network, serialiser, timers, clock), \<open>track\<close> never rejects:
  its outcome is \<open>Inr\<close>. It resolves to \<^verbatim>\<open>{success: true}\<close> when the delivery pipeline
  (\<open>sendEvent\<close>) succeeds, and to \<^verbatim>\<open>{success: false, error}\<close> with the pipeline's error
  when it fails (it stays pending only while the pipeline never settles, which takes a
  response whose body never arrives); in particular, with a transport whose every attempt
  fails, it resolves to \<^verbatim>\<open>{success: false, error}\<close>.
  \<open>trackInvocation\<close>, \<open>trackSuccess\<close> and \<open>trackFailure\<close> are \<open>track\<close> with the event type
  fixed, and never reject either.
\<close>

theorem track_never_rejects:
  "(\<exists>res. fst (track pf config toolName eventType md durationMs w) = Inr res \<and>
      res = (case fst (sendEvent pf config
                    \<lparr>tool_name = toolName, event_type = eventType,
                     duration_ms = durationMs, metadata = md\<rparr> w) of
               Inr (Returns data) \<Rightarrow> Returns \<lparr>success = True, error = None\<rparr>
             | Inr Stalls \<Rightarrow> Stalls
             | Inl err \<Rightarrow> Returns \<lparr>success = False, error = Some err\<rparr>))
   \<and> ((\<forall>s. \<exists>e. fst (sendAttempt pf config
                    \<lparr>tool_name = toolName, event_type = eventType,
                     duration_ms = durationMs, metadata = md\<rparr> s) = Inl e) \<longrightarrow>
        (\<exists>e. fst (track pf config toolName eventType md durationMs w) =
                Inr (Returns \<lparr>success = False, error = Some e\<rparr>)))
   \<and> trackInvocation pf config toolName md w = track pf config toolName Invocation md None w
   \<and> trackSuccess pf config toolName md durationMs w =
        track pf config toolName Success md durationMs w
   \<and> trackFailure pf config toolName md durationMs w =
        track pf config toolName Failure md durationMs w
   \<and> (\<exists>res. fst (trackInvocation pf config toolName md w) = Inr res)
   \<and> (\<exists>res. fst (trackSuccess pf config toolName md durationMs w) = Inr res)
   \<and> (\<exists>res. fst (trackFailure pf config toolName md durationMs w) = Inr res)
   \<and> ((\<forall>rq s resp s'. fetch pf rq s = (Resolves resp, s') \<longrightarrow>
         body_text resp \<noteq> Inr Stalls \<and> body_json resp \<noteq> Inr Stalls) \<longrightarrow>
        (\<exists>res. fst (track pf config toolName eventType md durationMs w) = Inr (Returns res)))"
proof -
  let ?p = "\<lparr>tool_name = toolName, event_type = eventType, duration_ms = durationMs, metadata = md\<rparr>"
  have A: "\<exists>res. fst (track pf config toolName eventType md durationMs w) = Inr res \<and>
      res = (case fst (sendEvent pf config ?p w) of
               Inr (Returns data) \<Rightarrow> Returns \<lparr>success = True, error = None\<rparr>
             | Inr Stalls \<Rightarrow> Stalls
             | Inl err \<Rightarrow> Returns \<lparr>success = False, error = Some err\<rparr>)"
    by (simp add: track_eq Let_def)
  have B: "(\<forall>s. \<exists>e. fst (sendAttempt pf config ?p s) = Inl e) \<longrightarrow>
        (\<exists>e. fst (track pf config toolName eventType md durationMs w) =
                Inr (Returns \<lparr>success = False, error = Some e\<rparr>))"
  proof
    assume "\<forall>s. \<exists>e. fst (sendAttempt pf config ?p s) = Inl e"
    from sendEvent_transport_down[OF this, of w] obtain e
      where "fst (sendEvent pf config ?p w) = Inl e" by blast
    then have "fst (track pf config toolName eventType md durationMs w) =
                Inr (Returns \<lparr>success = False, error = Some e\<rparr>)"
      by (simp add: track_eq Let_def)
    then show "\<exists>e. fst (track pf config toolName eventType md durationMs w) =
                Inr (Returns \<lparr>success = False, error = Some e\<rparr>)" ..
  qed
  have C: "trackInvocation pf config toolName md w = track pf config toolName Invocation md None w"
    "trackSuccess pf config toolName md durationMs w = track pf config toolName Success md durationMs w"
    "trackFailure pf config toolName md durationMs w = track pf config toolName Failure md durationMs w"
    by (simp_all add: trackInvocation_def trackSuccess_def trackFailure_def)
  have D: "\<exists>res. fst (trackInvocation pf config toolName md w) = Inr res"
    "\<exists>res. fst (trackSuccess pf config toolName md durationMs w) = Inr res"
    "\<exists>res. fst (trackFailure pf config toolName md durationMs w) = Inr res"
    by (simp_all add: C track_resolves)
  have S: "(\<forall>rq s resp s'. fetch pf rq s = (Resolves resp, s') \<longrightarrow>
         body_text resp \<noteq> Inr Stalls \<and> body_json resp \<noteq> Inr Stalls) \<longrightarrow>
        (\<exists>res. fst (track pf config toolName eventType md durationMs w) = Inr (Returns res))"
    by (intro impI) (rule track_settles(1))
  show ?thesis by (intro conjI A B C D S)
qed

lemma sendAttempt_networkDown:
  "sendAttempt networkDown config p w =
     (Inl fetchFailed, Suc w, [SetTimeout (timeout config), FetchCall (request config p), ClearTimeout])"
  by (simp add: sendAttempt_def networkDown_def sendCatch_def fetchFailed_def stringifyThrows_def
      split: option.splits)

lemma fetchFailed_retryable: "isRetryableError fetchFailed"
  by (simp add: isRetryableError_def fetchFailed_def)

theorem track_never_rejects_witness:
  "(\<forall>s. \<exists>e. fst (sendAttempt networkDown testConfig invocationPayload s) = Inl e)
   \<and> attempts (snd (snd (sendEvent networkDown testConfig invocationPayload 0))) = 4
   \<and> fst (track networkDown testConfig ''test_tool'' Invocation None None 0) =
        Inr (Returns \<lparr>success = False, error = Some fetchFailed\<rparr>)
   \<and> (\<exists>e. fst (trackInvocation networkDown testConfig ''test_tool'' None 0) =
        Inr (Returns \<lparr>success = False, error = Some e\<rparr>))
   \<and> (\<exists>res. fst (track networkDown testConfig ''test_tool'' Invocation None None 0) =
        Inr (Returns res))"
proof -
  have down: "\<forall>s. \<exists>e. fst (sendAttempt networkDown testConfig invocationPayload s) = Inl e"
    by (simp add: sendAttempt_networkDown)
  have s: "sleep networkDown d w = w" for d w by (simp add: networkDown_def)
  have run: "sendEvent networkDown testConfig invocationPayload 0 =
     (Inl fetchFailed, 4,
      [Attempt [SetTimeout 5000, FetchCall (request testConfig invocationPayload), ClearTimeout] (Inl fetchFailed), Delay 100,
       Attempt [SetTimeout 5000, FetchCall (request testConfig invocationPayload), ClearTimeout] (Inl fetchFailed), Delay 200,
       Attempt [SetTimeout 5000, FetchCall (request testConfig invocationPayload), ClearTimeout] (Inl fetchFailed), Delay 400,
       Attempt [SetTimeout 5000, FetchCall (request testConfig invocationPayload), ClearTimeout] (Inl fetchFailed)])"
    by (simp add: sendEvent_def execute_def execute_loop_retry execute_loop_stop
        sendAttempt_networkDown fetchFailed_retryable testConfig_simps s backoff_def)
  note T = track_never_rejects[of networkDown testConfig "''test_tool''" Invocation None None 0]
  from T[THEN conjunct1] run
  have 1: "fst (track networkDown testConfig ''test_tool'' Invocation None None 0) =
        Inr (Returns \<lparr>success = False, error = Some fetchFailed\<rparr>)"
    by (auto simp: invocationPayload_def)
  from T[THEN conjunct2, THEN conjunct1] down
  have 2: "\<exists>e. fst (track networkDown testConfig ''test_tool'' Invocation None None 0) =
        Inr (Returns \<lparr>success = False, error = Some e\<rparr>)"
    by (simp add: invocationPayload_def)
  from T[THEN conjunct2, THEN conjunct2, THEN conjunct1] 2
  have 3: "\<exists>e. fst (trackInvocation networkDown testConfig ''test_tool'' None 0) =
        Inr (Returns \<lparr>success = False, error = Some e\<rparr>)"
    by simp
  from T[THEN conjunct2, THEN conjunct2, THEN conjunct2, THEN conjunct2, THEN conjunct2,
         THEN conjunct2, THEN conjunct2, THEN conjunct2] bodies_networkDown
  have 4: "\<exists>res. fst (track networkDown testConfig ''test_tool'' Invocation None None 0) =
        Inr (Returns res)"
    by blast
  show ?thesis using down run 1 3 4 by simp
qed

section \<open>The wrapped call\<close>

lemma trackInvocationStep_eq:
  "trackInvocationStep pf config toolName options md w =
     (if shouldTrackInvocation options then
        (let p = \<lparr>tool_name = toolName, event_type = Invocation, duration_ms = None, metadata = md\<rparr>;
             run = sendEvent pf config p w
         in (Inr (case fst run of Inr Stalls \<Rightarrow> Stalls | _ \<Rightarrow> Returns ()),
             fst (snd run), [Delivery p (snd (snd run))]))
      else (Inr (Returns ()), w, []))"
  by (simp add: trackInvocationStep_def trackInvocation_def track_eq Let_def
      split: sum.splits Completion.splits)

lemma trackInvocationStep_cases:
  assumes "trackInvocationStep pf config toolName options md w = (x, w1, ds1)"
  shows "(x = Inr (Returns ()) \<or> x = Inr Stalls) \<and>
         (x = Inr Stalls \<longleftrightarrow>
            shouldTrackInvocation options \<and>
            fst (trackInvocation pf config toolName md w) = Inr Stalls) \<and>
         (shouldTrackInvocation options \<longrightarrow>
            w1 = fst (snd (trackInvocation pf config toolName md w))) \<and>
         (if shouldTrackInvocation options
          then \<exists>tr. ds1 = [Delivery \<lparr>tool_name = toolName, event_type = Invocation,
                                      duration_ms = None, metadata = md\<rparr> tr]
          else ds1 = [] \<and> w1 = w \<and> x = Inr (Returns ()))"
  using assms
  by (auto simp: trackInvocationStep_eq trackInvocation_def track_eq Let_def
           split: if_splits sum.splits Completion.splits)

lemma wrap_stalled:
  assumes "trackInvocationStep pf config toolName options
             (invocationMetadataOf options params meta) w = (Inr Stalls, w1, ds1)"
  shows "wrap pf config toolName fn options params meta w = (Inr Stalls, w1, map Tracked ds1)"
  using assms by (simp add: wrap_def wrapTry_def Let_def)

lemma wrap_resolved:
  assumes step: "trackInvocationStep pf config toolName options
                   (invocationMetadataOf options params meta) w = (Inr (Returns u), w1, ds1)"
    and fn: "fn params meta w1 = (Inr result, w2)"
  shows "\<exists>w3 tr c.
           fst (trackSuccess pf config toolName
                  (Some (mergeMetadata [invocationMetadataOf options params meta,
                                        outputMetadataOf options result]))
                  (Some (now pf w2 - now pf w)) w2) = Inr c \<and>
           wrap pf config toolName fn options params meta w =
           ((case c of Returns res \<Rightarrow> Inr (Returns (Some result)) | Stalls \<Rightarrow> Inr Stalls), w3,
            map Tracked ds1 @
            [Invoked params meta,
             Tracked (Delivery \<lparr>tool_name = toolName, event_type = Success,
                                duration_ms = Some (now pf w2 - now pf w),
                                metadata = Some (mergeMetadata
                                  [invocationMetadataOf options params meta,
                                   outputMetadataOf options result])\<rparr> tr)])"
  using step fn
  by (simp add: wrap_def wrapTry_def trackSuccess_def track_eq Let_def
      split: sum.splits Completion.splits)

lemma wrap_rejected:
  assumes step: "trackInvocationStep pf config toolName options
                   (invocationMetadataOf options params meta) w = (Inr (Returns u), w1, ds1)"
    and fn: "fn params meta w1 = (Inl err, w2)"
  shows "\<exists>w3 tr c.
           fst (trackFailure pf config toolName
                  (Some (mergeMetadata [invocationMetadataOf options params meta,
                                        errorMetadataOf options err]))
                  (Some (now pf w2 - now pf w)) w2) = Inr c \<and>
           wrap pf config toolName fn options params meta w =
           ((case c of
               Returns res \<Rightarrow> if shouldRethrow options then Inl err else Inr (Returns None)
             | Stalls \<Rightarrow> Inr Stalls), w3,
            map Tracked ds1 @
            [Invoked params meta,
             Tracked (Delivery \<lparr>tool_name = toolName, event_type = Failure,
                                duration_ms = Some (now pf w2 - now pf w),
                                metadata = Some (mergeMetadata
                                  [invocationMetadataOf options params meta,
                                   errorMetadataOf options err])\<rparr> tr)])"
  using step fn
  by (simp add: wrap_def wrapTry_def trackFailure_def track_eq Let_def
      split: sum.splits Completion.splits)

lemma defaultOptions_simps:
  "shouldTrackInvocation defaultOptions" "shouldRethrow defaultOptions"
  "invocationMetadataOf defaultOptions params meta = None"
  "outputMetadataOf defaultOptions result = None"
  "errorMetadataOf defaultOptions err = None"
  by (simp_all add: defaultOptions_def shouldTrackInvocation_def shouldRethrow_def
      invocationMetadataOf_def outputMetadataOf_def errorMetadataOf_def)

lemma mergeMetadata_None_None: "mergeMetadata [None, None] = Map.empty"
  by (simp add: mergeMetadata_def mergeStep_def)


subsection \<open>Fetch calls on a network that answers\<close>




subsection \<open>The example platforms\<close>



lemma stringifyThrows_okPlatform: "stringifyThrows okPlatform md = None"
  by (simp add: stringifyThrows_def okPlatform_def split: option.splits)

lemma sendEvent_okPlatform:
  "0 \<le> retries config \<Longrightarrow>
   sendEvent okPlatform config p w =
     (Inr (Returns (Ack True)), Suc w,
      [Attempt [SetTimeout (timeout config), FetchCall (request config p), ClearTimeout, ClearTimeout]
         (Inr (Returns (Ack True)))])"
proof -
  assume r: "0 \<le> retries config"
  have "sendAttempt okPlatform config p w =
     (Inr (Returns (Ack True)), Suc w,
      [SetTimeout (timeout config), FetchCall (request config p), ClearTimeout, ClearTimeout])"
    by (simp add: sendAttempt_def stringifyThrows_okPlatform) (simp add: okPlatform_def okResponse_def)
  with r show ?thesis by (simp add: sendEvent_def execute_def execute_loop_ok)
qed

lemma track_okPlatform:
  "fst (track okPlatform testConfig toolName et md d w) =
     Inr (Returns \<lparr>success = True, error = None\<rparr>)"
  "fst (snd (track okPlatform testConfig toolName et md d w)) = Suc w"
  by (simp_all add: track_eq Let_def sendEvent_okPlatform testConfig_simps)

lemma now_okPlatform: "now okPlatform w = int w"
  by (simp add: okPlatform_def)


lemma brokenExtractors_simps:
  "shouldTrackInvocation brokenExtractors" "shouldRethrow brokenExtractors"
  "invocationMetadataOf brokenExtractors params meta = None"
  "outputMetadataOf brokenExtractors result = None"
  "errorMetadataOf brokenExtractors err = None"
  by (simp_all add: brokenExtractors_def shouldTrackInvocation_def shouldRethrow_def
      invocationMetadataOf_def outputMetadataOf_def errorMetadataOf_def)





subsection \<open>Success path\<close>



subsection \<open>Failure path\<close>



subsection \<open>Extractor isolation\<close>

text \<open>
  Claim C7. For every wrapped call, whatever the options and the three extractors do:
  an extractor that throws leaves its metadata fragment \<open>undefined\<close> (each of the three
  on its own); the invocation step never throws, delivers the invocation event exactly
  when invocation tracking is on, and stays pending only when the delivery pipeline does
  (never because of an extractor); once it is through, the wrapped function is called with
  \<open>(params, meta)\<close>; and when it resolves the success event is delivered and its result
  returned, when it rejects the failure event is delivered and the error rethrown (or
  swallowed, as \<open>rethrowErrors\<close> says), the wrapped call settling as soon as that outcome
  tracking does. On a platform where the body of every response arrives or fails, every
  tracking call settles, so the wrapped function is always called and the wrapped call
  always settles with the result or the error of the function. No behaviour of an
  extractor aborts the call or suppresses an event.
\<close>

theorem wrap_extractor_isolation:
  fixes pf :: "('v, 'w) Platform" and fn :: "'p \<Rightarrow> 'm \<Rightarrow> 'w \<Rightarrow> (JSError + 'r) \<times> 'w"
    and options :: "('p, 'm, 'r, 'v) WrapOptions"
  shows
  "(\<forall>g e. getMetadata options = Some g \<and> g params meta = Inl e \<longrightarrow>
       invocationMetadataOf options params meta = None)
   \<and> (\<forall>g e result. getOutputMetadata options = Some g \<and> g result = Inl e \<longrightarrow>
       outputMetadataOf options result = None)
   \<and> (\<forall>g e err. getErrorMetadata options = Some g \<and> g err = Inl e \<longrightarrow>
       errorMetadataOf options err = None)
   \<and> (\<exists>x w1 ds1.
        trackInvocationStep pf config toolName options
          (invocationMetadataOf options params meta) w = (Inr x, w1, ds1)
        \<and> (x = Stalls \<longleftrightarrow>
             shouldTrackInvocation options \<and>
             fst (trackInvocation pf config toolName
                    (invocationMetadataOf options params meta) w) = Inr Stalls)
        \<and> (if shouldTrackInvocation options
            then \<exists>tr. ds1 = [Delivery \<lparr>tool_name = toolName, event_type = Invocation,
                              duration_ms = None,
                              metadata = invocationMetadataOf options params meta\<rparr> tr]
            else ds1 = [])
        \<and> (\<forall>result w2. x = Returns () \<and> fn params meta w1 = (Inr result, w2) \<longrightarrow>
             (\<exists>w3 tr c.
                fst (trackSuccess pf config toolName
                       (Some (mergeMetadata [invocationMetadataOf options params meta,
                                             outputMetadataOf options result]))
                       (Some (now pf w2 - now pf w)) w2) = Inr c \<and>
                wrap pf config toolName fn options params meta w =
                ((case c of Returns res \<Rightarrow> Inr (Returns (Some result)) | Stalls \<Rightarrow> Inr Stalls),
                 w3,
                 map Tracked ds1 @
                 [Invoked params meta,
                  Tracked (Delivery \<lparr>tool_name = toolName, event_type = Success,
                             duration_ms = Some (now pf w2 - now pf w),
                             metadata = Some (mergeMetadata
                               [invocationMetadataOf options params meta,
                                outputMetadataOf options result])\<rparr> tr)])))
        \<and> (\<forall>err w2. x = Returns () \<and> fn params meta w1 = (Inl err, w2) \<longrightarrow>
             (\<exists>w3 tr c.
                fst (trackFailure pf config toolName
                       (Some (mergeMetadata [invocationMetadataOf options params meta,
                                             errorMetadataOf options err]))
                       (Some (now pf w2 - now pf w)) w2) = Inr c \<and>
                wrap pf config toolName fn options params meta w =
                ((case c of
                    Returns res \<Rightarrow> if shouldRethrow options then Inl err else Inr (Returns None)
                  | Stalls \<Rightarrow> Inr Stalls),
                 w3,
                 map Tracked ds1 @
                 [Invoked params meta,
                  Tracked (Delivery \<lparr>tool_name = toolName, event_type = Failure,
                             duration_ms = Some (now pf w2 - now pf w),
                             metadata = Some (mergeMetadata
                               [invocationMetadataOf options params meta,
                                errorMetadataOf options err])\<rparr> tr)]))))
   \<and> ((\<forall>rq s resp s'. fetch pf rq s = (Resolves resp, s') \<longrightarrow>
         body_text resp \<noteq> Inr Stalls \<and> body_json resp \<noteq> Inr Stalls) \<longrightarrow>
        (\<exists>w1 ds1.
          trackInvocationStep pf config toolName options
            (invocationMetadataOf options params meta) w = (Inr (Returns ()), w1, ds1)
          \<and> (\<forall>result w2. fn params meta w1 = (Inr result, w2) \<longrightarrow>
               (\<exists>w3 tr.
                  wrap pf config toolName fn options params meta w =
                  (Inr (Returns (Some result)), w3,
                   map Tracked ds1 @
                   [Invoked params meta,
                    Tracked (Delivery \<lparr>tool_name = toolName, event_type = Success,
                               duration_ms = Some (now pf w2 - now pf w),
                               metadata = Some (mergeMetadata
                                 [invocationMetadataOf options params meta,
                                  outputMetadataOf options result])\<rparr> tr)])))
          \<and> (\<forall>err w2. fn params meta w1 = (Inl err, w2) \<longrightarrow>
               (\<exists>w3 tr.
                  wrap pf config toolName fn options params meta w =
                  ((if shouldRethrow options then Inl err else Inr (Returns None)), w3,
                   map Tracked ds1 @
                   [Invoked params meta,
                    Tracked (Delivery \<lparr>tool_name = toolName, event_type = Failure,
                               duration_ms = Some (now pf w2 - now pf w),
                               metadata = Some (mergeMetadata
                                 [invocationMetadataOf options params meta,
                                  errorMetadataOf options err])\<rparr> tr)])))))"
proof -
  let ?inv = "invocationMetadataOf options params meta"
  have A: "\<forall>g e. getMetadata options = Some g \<and> g params meta = Inl e \<longrightarrow> ?inv = None"
    by (simp add: invocationMetadataOf_def)
  have B: "\<forall>g e result. getOutputMetadata options = Some g \<and> g result = Inl e \<longrightarrow>
       outputMetadataOf options result = None"
    by (simp add: outputMetadataOf_def)
  have C: "\<forall>g e err. getErrorMetadata options = Some g \<and> g err = Inl e \<longrightarrow>
       errorMetadataOf options err = None"
    by (simp add: errorMetadataOf_def)
  obtain y w1 ds1 where step0:
    "trackInvocationStep pf config toolName options ?inv w = (y, w1, ds1)"
    by (metis prod.collapse)
  note c = trackInvocationStep_cases[OF step0]
  from c obtain x where y: "y = Inr x" by auto
  note step = step0[unfolded y]
  have st: "x = Stalls \<longleftrightarrow>
             shouldTrackInvocation options \<and>
             fst (trackInvocation pf config toolName ?inv w) = Inr Stalls"
    using c y by simp
  have ds: "if shouldTrackInvocation options
            then \<exists>tr. ds1 = [Delivery \<lparr>tool_name = toolName, event_type = Invocation,
                              duration_ms = None, metadata = ?inv\<rparr> tr]
            else ds1 = []"
    using c by (simp split: if_splits)
  have R: "\<exists>w3 tr c.
                fst (trackSuccess pf config toolName
                       (Some (mergeMetadata [?inv, outputMetadataOf options result]))
                       (Some (now pf w2 - now pf w)) w2) = Inr c \<and>
                wrap pf config toolName fn options params meta w =
                ((case c of Returns res \<Rightarrow> Inr (Returns (Some result)) | Stalls \<Rightarrow> Inr Stalls),
                 w3,
                 map Tracked ds1 @
                 [Invoked params meta,
                  Tracked (Delivery \<lparr>tool_name = toolName, event_type = Success,
                             duration_ms = Some (now pf w2 - now pf w),
                             metadata = Some (mergeMetadata
                               [?inv, outputMetadataOf options result])\<rparr> tr)])"
    if "x = Returns () \<and> fn params meta w1 = (Inr result, w2)" for result w2
    using wrap_resolved[where fn = fn, OF step[unfolded that[THEN conjunct1]] that[THEN conjunct2]] .
  have F: "\<exists>w3 tr c.
                fst (trackFailure pf config toolName
                       (Some (mergeMetadata [?inv, errorMetadataOf options err]))
                       (Some (now pf w2 - now pf w)) w2) = Inr c \<and>
                wrap pf config toolName fn options params meta w =
                ((case c of
                    Returns res \<Rightarrow> if shouldRethrow options then Inl err else Inr (Returns None)
                  | Stalls \<Rightarrow> Inr Stalls),
                 w3,
                 map Tracked ds1 @
                 [Invoked params meta,
                  Tracked (Delivery \<lparr>tool_name = toolName, event_type = Failure,
                             duration_ms = Some (now pf w2 - now pf w),
                             metadata = Some (mergeMetadata
                               [?inv, errorMetadataOf options err])\<rparr> tr)])"
    if "x = Returns () \<and> fn params meta w1 = (Inl err, w2)" for err w2
    using wrap_rejected[where fn = fn, OF step[unfolded that[THEN conjunct1]] that[THEN conjunct2]] .
  have D: "\<exists>x w1 ds1.
        trackInvocationStep pf config toolName options ?inv w = (Inr x, w1, ds1)
        \<and> (x = Stalls \<longleftrightarrow>
             shouldTrackInvocation options \<and>
             fst (trackInvocation pf config toolName ?inv w) = Inr Stalls)
        \<and> (if shouldTrackInvocation options
            then \<exists>tr. ds1 = [Delivery \<lparr>tool_name = toolName, event_type = Invocation,
                              duration_ms = None, metadata = ?inv\<rparr> tr]
            else ds1 = [])
        \<and> (\<forall>result w2. x = Returns () \<and> fn params meta w1 = (Inr result, w2) \<longrightarrow>
             (\<exists>w3 tr c.
                fst (trackSuccess pf config toolName
                       (Some (mergeMetadata [?inv, outputMetadataOf options result]))
                       (Some (now pf w2 - now pf w)) w2) = Inr c \<and>
                wrap pf config toolName fn options params meta w =
                ((case c of Returns res \<Rightarrow> Inr (Returns (Some result)) | Stalls \<Rightarrow> Inr Stalls),
                 w3,
                 map Tracked ds1 @
                 [Invoked params meta,
                  Tracked (Delivery \<lparr>tool_name = toolName, event_type = Success,
                             duration_ms = Some (now pf w2 - now pf w),
                             metadata = Some (mergeMetadata
                               [?inv, outputMetadataOf options result])\<rparr> tr)])))
        \<and> (\<forall>err w2. x = Returns () \<and> fn params meta w1 = (Inl err, w2) \<longrightarrow>
             (\<exists>w3 tr c.
                fst (trackFailure pf config toolName
                       (Some (mergeMetadata [?inv, errorMetadataOf options err]))
                       (Some (now pf w2 - now pf w)) w2) = Inr c \<and>
                wrap pf config toolName fn options params meta w =
                ((case c of
                    Returns res \<Rightarrow> if shouldRethrow options then Inl err else Inr (Returns None)
                  | Stalls \<Rightarrow> Inr Stalls),
                 w3,
                 map Tracked ds1 @
                 [Invoked params meta,
                  Tracked (Delivery \<lparr>tool_name = toolName, event_type = Failure,
                             duration_ms = Some (now pf w2 - now pf w),
                             metadata = Some (mergeMetadata
                               [?inv, errorMetadataOf options err])\<rparr> tr)])))"
    apply (rule exI[of _ x], rule exI[of _ w1], rule exI[of _ ds1])
    apply (intro conjI step st ds allI impI)
     apply (erule R)
    apply (erule F)
    done
  have S: "(\<forall>rq s resp s'. fetch pf rq s = (Resolves resp, s') \<longrightarrow>
         body_text resp \<noteq> Inr Stalls \<and> body_json resp \<noteq> Inr Stalls) \<longrightarrow>
        (\<exists>w1 ds1.
          trackInvocationStep pf config toolName options
            (?inv) w = (Inr (Returns ()), w1, ds1)
          \<and> (\<forall>result w2. fn params meta w1 = (Inr result, w2) \<longrightarrow>
               (\<exists>w3 tr.
                  wrap pf config toolName fn options params meta w =
                  (Inr (Returns (Some result)), w3,
                   map Tracked ds1 @
                   [Invoked params meta,
                    Tracked (Delivery \<lparr>tool_name = toolName, event_type = Success,
                               duration_ms = Some (now pf w2 - now pf w),
                               metadata = Some (mergeMetadata
                                 [?inv,
                                  outputMetadataOf options result])\<rparr> tr)])))
          \<and> (\<forall>err w2. fn params meta w1 = (Inl err, w2) \<longrightarrow>
               (\<exists>w3 tr.
                  wrap pf config toolName fn options params meta w =
                  ((if shouldRethrow options then Inl err else Inr (Returns None)), w3,
                   map Tracked ds1 @
                   [Invoked params meta,
                    Tracked (Delivery \<lparr>tool_name = toolName, event_type = Failure,
                               duration_ms = Some (now pf w2 - now pf w),
                               metadata = Some (mergeMetadata
                                 [?inv,
                                  errorMetadataOf options err])\<rparr> tr)]))))"
  proof
    assume b: "(\<forall>rq s resp s'. fetch pf rq s = (Resolves resp, s') \<longrightarrow>
         body_text resp \<noteq> Inr Stalls \<and> body_json resp \<noteq> Inr Stalls)"
    from track_settles(2)[OF b, of config toolName ?inv w] st
    have xr: "x = Returns ()" by (cases x) auto
    have R': "\<exists>w3 tr.
                  wrap pf config toolName fn options params meta w =
                  (Inr (Returns (Some result)), w3,
                   map Tracked ds1 @
                   [Invoked params meta,
                    Tracked (Delivery \<lparr>tool_name = toolName, event_type = Success,
                               duration_ms = Some (now pf w2 - now pf w),
                               metadata = Some (mergeMetadata
                                 [?inv, outputMetadataOf options result])\<rparr> tr)])"
      if f: "fn params meta w1 = (Inr result, w2)" for result w2
    proof -
      from R[of result w2] xr f obtain w3 tr c where
        c: "fst (trackSuccess pf config toolName
                       (Some (mergeMetadata [?inv, outputMetadataOf options result]))
                       (Some (now pf w2 - now pf w)) w2) = Inr c"
        and wr: "wrap pf config toolName fn options params meta w =
                ((case c of Returns res \<Rightarrow> Inr (Returns (Some result)) | Stalls \<Rightarrow> Inr Stalls),
                 w3,
                 map Tracked ds1 @
                 [Invoked params meta,
                  Tracked (Delivery \<lparr>tool_name = toolName, event_type = Success,
                             duration_ms = Some (now pf w2 - now pf w),
                             metadata = Some (mergeMetadata
                               [?inv, outputMetadataOf options result])\<rparr> tr)])"
        by blast
      from track_settles(3)[OF b, of config toolName
          "Some (mergeMetadata [?inv, outputMetadataOf options result])"
          "Some (now pf w2 - now pf w)" w2] c
      obtain res where "c = Returns res" by auto
      with wr show ?thesis by (intro exI[of _ w3] exI[of _ tr]) simp
    qed
    have F': "\<exists>w3 tr.
                  wrap pf config toolName fn options params meta w =
                  ((if shouldRethrow options then Inl err else Inr (Returns None)), w3,
                   map Tracked ds1 @
                   [Invoked params meta,
                    Tracked (Delivery \<lparr>tool_name = toolName, event_type = Failure,
                               duration_ms = Some (now pf w2 - now pf w),
                               metadata = Some (mergeMetadata
                                 [?inv, errorMetadataOf options err])\<rparr> tr)])"
      if f: "fn params meta w1 = (Inl err, w2)" for err w2
    proof -
      from F[of err w2] xr f obtain w3 tr c where
        c: "fst (trackFailure pf config toolName
                       (Some (mergeMetadata [?inv, errorMetadataOf options err]))
                       (Some (now pf w2 - now pf w)) w2) = Inr c"
        and wr: "wrap pf config toolName fn options params meta w =
                ((case c of
                    Returns res \<Rightarrow> if shouldRethrow options then Inl err else Inr (Returns None)
                  | Stalls \<Rightarrow> Inr Stalls),
                 w3,
                 map Tracked ds1 @
                 [Invoked params meta,
                  Tracked (Delivery \<lparr>tool_name = toolName, event_type = Failure,
                             duration_ms = Some (now pf w2 - now pf w),
                             metadata = Some (mergeMetadata
                               [?inv, errorMetadataOf options err])\<rparr> tr)])"
        by blast
      from track_settles(4)[OF b, of config toolName
          "Some (mergeMetadata [?inv, errorMetadataOf options err])"
          "Some (now pf w2 - now pf w)" w2] c
      obtain res where "c = Returns res" by auto
      with wr show ?thesis by (intro exI[of _ w3] exI[of _ tr]) simp
    qed
    show "\<exists>w1 ds1.
          trackInvocationStep pf config toolName options
            (?inv) w = (Inr (Returns ()), w1, ds1)
          \<and> (\<forall>result w2. fn params meta w1 = (Inr result, w2) \<longrightarrow>
               (\<exists>w3 tr.
                  wrap pf config toolName fn options params meta w =
                  (Inr (Returns (Some result)), w3,
                   map Tracked ds1 @
                   [Invoked params meta,
                    Tracked (Delivery \<lparr>tool_name = toolName, event_type = Success,
                               duration_ms = Some (now pf w2 - now pf w),
                               metadata = Some (mergeMetadata
                                 [?inv,
                                  outputMetadataOf options result])\<rparr> tr)])))
          \<and> (\<forall>err w2. fn params meta w1 = (Inl err, w2) \<longrightarrow>
               (\<exists>w3 tr.
                  wrap pf config toolName fn options params meta w =
                  ((if shouldRethrow options then Inl err else Inr (Returns None)), w3,
                   map Tracked ds1 @
                   [Invoked params meta,
                    Tracked (Delivery \<lparr>tool_name = toolName, event_type = Failure,
                               duration_ms = Some (now pf w2 - now pf w),
                               metadata = Some (mergeMetadata
                                 [?inv,
                                  errorMetadataOf options err])\<rparr> tr)])))"
      apply (rule exI[of _ w1], rule exI[of _ ds1])
      apply (intro conjI allI impI)
        apply (rule step[unfolded xr])
       apply (erule R')
      apply (erule F')
      done
  qed
  show ?thesis by (intro conjI A B C D S)
qed

theorem wrap_extractor_isolation_witness:
  "(\<exists>g e. getMetadata brokenExtractors = Some g \<and> g testParams None = Inl e)
   \<and> (\<exists>g e. getOutputMetadata brokenExtractors = Some g \<and> g testResult = Inl e)
   \<and> (\<exists>g e. getErrorMetadata brokenExtractors = Some g \<and> g boom = Inl e)
   \<and> invocationMetadataOf brokenExtractors testParams None = None
   \<and> outputMetadataOf brokenExtractors testResult = None
   \<and> errorMetadataOf brokenExtractors boom = None
   \<and> (\<exists>w1 w3 tr1 tr2.
        resolvingTool testParams None w1 = (Inr testResult, w1 + 100) \<and>
        wrap okPlatform testConfig ''test_tool'' resolvingTool brokenExtractors testParams None 0 =
          (Inr (Returns (Some testResult)), w3,
           [Tracked (Delivery \<lparr>tool_name = ''test_tool'', event_type = Invocation,
                               duration_ms = None, metadata = None\<rparr> tr1),
            Invoked testParams None,
            Tracked (Delivery \<lparr>tool_name = ''test_tool'', event_type = Success,
                               duration_ms = Some (int w1 + 100), metadata = Some Map.empty\<rparr> tr2)]))
   \<and> (\<exists>w1 w3 tr1 tr2.
        rejectingTool testParams None w1 = (Inl boom, w1 + 100) \<and>
        wrap okPlatform testConfig ''test_tool'' rejectingTool brokenExtractors testParams None 0 =
          (Inl boom, w3,
           [Tracked (Delivery \<lparr>tool_name = ''test_tool'', event_type = Invocation,
                               duration_ms = None, metadata = None\<rparr> tr1),
            Invoked testParams None,
            Tracked (Delivery \<lparr>tool_name = ''test_tool'', event_type = Failure,
                               duration_ms = Some (int w1 + 100), metadata = Some Map.empty\<rparr> tr2)]))
   \<and> fst (wrap networkDown testConfig ''test_tool'' resolvingTool brokenExtractors testParams None 0) =
        Inr (Returns (Some testResult))
   \<and> fst (wrap networkDown testConfig ''test_tool'' rejectingTool brokenExtractors testParams None 0) =
        Inl boom"
proof -
  have g1: "\<exists>g e. getMetadata brokenExtractors = Some g \<and> g testParams None = Inl e"
    by (simp add: brokenExtractors_def)
  have g2: "\<exists>g e. getOutputMetadata brokenExtractors = Some g \<and> g testResult = Inl e"
    by (simp add: brokenExtractors_def)
  have g3: "\<exists>g e. getErrorMetadata brokenExtractors = Some g \<and> g boom = Inl e"
    by (simp add: brokenExtractors_def)
  have settle: "fst (trackInvocation okPlatform testConfig ''test_tool'' md 0) \<noteq> Inr Stalls" for md
    by (simp add: trackInvocation_def track_okPlatform)
  note T1 = wrap_extractor_isolation[where options = brokenExtractors and params = testParams
      and meta = None and pf = okPlatform and config = testConfig and toolName = "''test_tool''"
      and w = 0 and fn = resolvingTool]
  note T2 = wrap_extractor_isolation[where options = brokenExtractors and params = testParams
      and meta = None and pf = okPlatform and config = testConfig and toolName = "''test_tool''"
      and w = 0 and fn = rejectingTool]
  from T1[THEN conjunct1] g1
  have m1: "invocationMetadataOf brokenExtractors testParams None = None" by blast
  from T1[THEN conjunct2, THEN conjunct1] g2
  have m2: "outputMetadataOf brokenExtractors testResult = None" by blast
  from T1[THEN conjunct2, THEN conjunct2, THEN conjunct1] g3
  have m3: "errorMetadataOf brokenExtractors boom = None" by blast
  from T1[THEN conjunct2, THEN conjunct2, THEN conjunct2, THEN conjunct1]
  obtain x w1 ds1 where
    x: "x = Stalls \<longleftrightarrow> fst (trackInvocation okPlatform testConfig ''test_tool'' None 0) = Inr Stalls"
    and ds: "\<exists>tr. ds1 = [Delivery \<lparr>tool_name = ''test_tool'', event_type = Invocation,
                              duration_ms = None, metadata = None\<rparr> tr]"
    and ok: "\<forall>result w2. x = Returns () \<and> resolvingTool testParams None w1 = (Inr result, w2) \<longrightarrow>
             (\<exists>w3 tr c.
                fst (trackSuccess okPlatform testConfig ''test_tool''
                       (Some (mergeMetadata [None, None]))
                       (Some (now okPlatform w2 - now okPlatform 0)) w2) = Inr c \<and>
                wrap okPlatform testConfig ''test_tool'' resolvingTool brokenExtractors testParams None 0 =
                ((case c of Returns res \<Rightarrow> Inr (Returns (Some result)) | Stalls \<Rightarrow> Inr Stalls),
                 w3,
                 map Tracked ds1 @
                 [Invoked testParams None,
                  Tracked (Delivery \<lparr>tool_name = ''test_tool'', event_type = Success,
                             duration_ms = Some (now okPlatform w2 - now okPlatform 0),
                             metadata = Some (mergeMetadata [None, None])\<rparr> tr)]))"
    by (auto simp: brokenExtractors_simps)
  from x settle have xr: "x = Returns ()" by (cases x) auto
  have r1: "resolvingTool testParams None w1 = (Inr testResult, w1 + 100)"
    by (simp add: resolvingTool_def)
  from ok xr r1 ds have W1: "\<exists>w1 w3 tr1 tr2.
        resolvingTool testParams None w1 = (Inr testResult, w1 + 100) \<and>
        wrap okPlatform testConfig ''test_tool'' resolvingTool brokenExtractors testParams None 0 =
          (Inr (Returns (Some testResult)), w3,
           [Tracked (Delivery \<lparr>tool_name = ''test_tool'', event_type = Invocation,
                               duration_ms = None, metadata = None\<rparr> tr1),
            Invoked testParams None,
            Tracked (Delivery \<lparr>tool_name = ''test_tool'', event_type = Success,
                               duration_ms = Some (int w1 + 100), metadata = Some Map.empty\<rparr> tr2)])"
    by (fastforce simp: now_okPlatform mergeMetadata_None_None trackSuccess_def track_okPlatform)
  from T2[THEN conjunct2, THEN conjunct2, THEN conjunct2, THEN conjunct1]
  obtain y v1 es1 where
    yx: "y = Stalls \<longleftrightarrow> fst (trackInvocation okPlatform testConfig ''test_tool'' None 0) = Inr Stalls"
    and es: "\<exists>tr. es1 = [Delivery \<lparr>tool_name = ''test_tool'', event_type = Invocation,
                              duration_ms = None, metadata = None\<rparr> tr]"
    and ko: "\<forall>err w2. y = Returns () \<and> rejectingTool testParams None v1 = (Inl err, w2) \<longrightarrow>
             (\<exists>w3 tr c.
                fst (trackFailure okPlatform testConfig ''test_tool''
                       (Some (mergeMetadata [None, None]))
                       (Some (now okPlatform w2 - now okPlatform 0)) w2) = Inr c \<and>
                wrap okPlatform testConfig ''test_tool'' rejectingTool brokenExtractors testParams None 0 =
                ((case c of
                    Returns res \<Rightarrow>
                      if shouldRethrow brokenExtractors then Inl err else Inr (Returns None)
                  | Stalls \<Rightarrow> Inr Stalls),
                 w3,
                 map Tracked es1 @
                 [Invoked testParams None,
                  Tracked (Delivery \<lparr>tool_name = ''test_tool'', event_type = Failure,
                             duration_ms = Some (now okPlatform w2 - now okPlatform 0),
                             metadata = Some (mergeMetadata [None, None])\<rparr> tr)]))"
    by (auto simp: brokenExtractors_simps)
  from yx settle have yr: "y = Returns ()" by (cases y) auto
  have r2: "rejectingTool testParams None v1 = (Inl boom, v1 + 100)"
    by (simp add: rejectingTool_def)
  from ko yr r2 es have W2: "\<exists>w1 w3 tr1 tr2.
        rejectingTool testParams None w1 = (Inl boom, w1 + 100) \<and>
        wrap okPlatform testConfig ''test_tool'' rejectingTool brokenExtractors testParams None 0 =
          (Inl boom, w3,
           [Tracked (Delivery \<lparr>tool_name = ''test_tool'', event_type = Invocation,
                               duration_ms = None, metadata = None\<rparr> tr1),
            Invoked testParams None,
            Tracked (Delivery \<lparr>tool_name = ''test_tool'', event_type = Failure,
                               duration_ms = Some (int w1 + 100), metadata = Some Map.empty\<rparr> tr2)])"
    by (fastforce simp: now_okPlatform mergeMetadata_None_None trackFailure_def track_okPlatform
        brokenExtractors_simps)
  note T3 = wrap_extractor_isolation[where options = brokenExtractors and params = testParams
      and meta = None and pf = networkDown and config = testConfig and toolName = "''test_tool''"
      and w = 0 and fn = resolvingTool]
  note T4 = wrap_extractor_isolation[where options = brokenExtractors and params = testParams
      and meta = None and pf = networkDown and config = testConfig and toolName = "''test_tool''"
      and w = 0 and fn = rejectingTool]
  from T3[THEN conjunct2, THEN conjunct2, THEN conjunct2, THEN conjunct2] bodies_networkDown
  obtain u1 where
    "\<forall>result w2. resolvingTool testParams None u1 = (Inr result, w2) \<longrightarrow>
       (\<exists>w3. fst (wrap networkDown testConfig ''test_tool'' resolvingTool brokenExtractors
                    testParams None 0) = Inr (Returns (Some result)))"
    by fastforce
  then have W3: "fst (wrap networkDown testConfig ''test_tool'' resolvingTool brokenExtractors
      testParams None 0) = Inr (Returns (Some testResult))"
    by (simp add: resolvingTool_def)
  from T4[THEN conjunct2, THEN conjunct2, THEN conjunct2, THEN conjunct2] bodies_networkDown
  obtain u2 where
    "\<forall>err w2. rejectingTool testParams None u2 = (Inl err, w2) \<longrightarrow>
       (\<exists>w3. fst (wrap networkDown testConfig ''test_tool'' rejectingTool brokenExtractors
                    testParams None 0) =
              (if shouldRethrow brokenExtractors then Inl err else Inr (Returns None)))"
    by fastforce
  then have W4: "fst (wrap networkDown testConfig ''test_tool'' rejectingTool brokenExtractors
      testParams None 0) = Inl boom"
    by (simp add: rejectingTool_def brokenExtractors_simps)
  show ?thesis by (intro conjI g1 g2 g3 m1 m2 m3 W1 W2 W3 W4)
qed

subsection \<open>Metadata of the outcome events\<close>

lemma deliveries_map_Tracked:
  "deliveries (map Tracked ds @ evs) = map payload ds @ deliveries evs"
  by (induction ds) auto

lemma wrap_deliveries:
  fixes pf :: "('v, 'w) Platform" and fn :: "'p \<Rightarrow> 'm \<Rightarrow> 'w \<Rightarrow> (JSError + 'r) \<times> 'w"
    and options :: "('p, 'm, 'r, 'v) WrapOptions"
  shows "\<exists>et d fragment.
     deliveries (snd (snd (wrap pf config toolName fn options params meta w))) =
       (if shouldTrackInvocation options
        then [\<lparr>tool_name = toolName, event_type = Invocation, duration_ms = None,
               metadata = invocationMetadataOf options params meta\<rparr>]
        else []) @
       (if shouldTrackInvocation options \<and>
           fst (trackInvocation pf config toolName
                  (invocationMetadataOf options params meta) w) = Inr Stalls
        then []
        else [\<lparr>tool_name = toolName, event_type = et, duration_ms = Some d,
               metadata = Some (mergeMetadata
                 [invocationMetadataOf options params meta, fragment])\<rparr>])
     \<and> (et = Success \<and> (\<exists>result. fragment = outputMetadataOf options result)
        \<or> et = Failure \<and> (\<exists>err. fragment = errorMetadataOf options err))"
proof -
  let ?inv = "invocationMetadataOf options params meta"
  let ?stall = "shouldTrackInvocation options \<and>
                fst (trackInvocation pf config toolName ?inv w) = Inr Stalls"
  obtain x w1 ds1 where step: "trackInvocationStep pf config toolName options ?inv w = (x, w1, ds1)"
    by (metis prod.collapse)
  note c = trackInvocationStep_cases[OF step]
  from c have ds: "map payload ds1 =
       (if shouldTrackInvocation options
        then [\<lparr>tool_name = toolName, event_type = Invocation, duration_ms = None,
               metadata = ?inv\<rparr>]
        else [])"
    by (auto split: if_splits)
  from c have xs: "x = Inr Stalls \<longleftrightarrow> ?stall" by simp
  show ?thesis
  proof (cases "x = Inr Stalls")
    case True
    with step have "wrap pf config toolName fn options params meta w =
        (Inr Stalls, w1, map Tracked ds1)"
      by (simp add: wrap_stalled)
    then have "deliveries (snd (snd (wrap pf config toolName fn options params meta w))) =
        map payload ds1"
      using deliveries_map_Tracked[of ds1 "[]"] by simp
    with ds True xs show ?thesis
      by (intro exI[of _ Success] exI[of _ 0] exI[of _ "outputMetadataOf options undefined"]) auto
  next
    case False
    with c have x: "x = Inr (Returns ())" by simp
    note step' = step[unfolded x]
    from False xs have ns: "\<not> ?stall" by simp
    obtain out w2 where f: "fn params meta w1 = (out, w2)" by (metis prod.collapse)
    show ?thesis
    proof (cases out)
      case (Inr result)
      with f have f': "fn params meta w1 = (Inr result, w2)" by simp
      from wrap_resolved[where fn = fn, OF step' f'] obtain tr where
        "snd (snd (wrap pf config toolName fn options params meta w)) =
           (map Tracked ds1 @
            [Invoked params meta,
             Tracked (Delivery \<lparr>tool_name = toolName, event_type = Success,
                                duration_ms = Some (now pf w2 - now pf w),
                                metadata = Some (mergeMetadata
                                  [?inv, outputMetadataOf options result])\<rparr> tr)])"
        by auto
      then have "deliveries (snd (snd (wrap pf config toolName fn options params meta w))) =
         map payload ds1 @
         [\<lparr>tool_name = toolName, event_type = Success, duration_ms = Some (now pf w2 - now pf w),
           metadata = Some (mergeMetadata [?inv, outputMetadataOf options result])\<rparr>]"
        by (simp add: deliveries_map_Tracked)
      with ds ns show ?thesis
        by (intro exI[of _ Success] exI[of _ "now pf w2 - now pf w"]
            exI[of _ "outputMetadataOf options result"]) auto
    next
      case (Inl err)
      with f have f': "fn params meta w1 = (Inl err, w2)" by simp
      from wrap_rejected[where fn = fn, OF step' f'] obtain tr where
        "snd (snd (wrap pf config toolName fn options params meta w)) =
           (map Tracked ds1 @
            [Invoked params meta,
             Tracked (Delivery \<lparr>tool_name = toolName, event_type = Failure,
                                duration_ms = Some (now pf w2 - now pf w),
                                metadata = Some (mergeMetadata
                                  [?inv, errorMetadataOf options err])\<rparr> tr)])"
        by auto
      then have "deliveries (snd (snd (wrap pf config toolName fn options params meta w))) =
         map payload ds1 @
         [\<lparr>tool_name = toolName, event_type = Failure, duration_ms = Some (now pf w2 - now pf w),
           metadata = Some (mergeMetadata [?inv, errorMetadataOf options err])\<rparr>]"
        by (simp add: deliveries_map_Tracked)
      with ds ns show ?thesis
        by (intro exI[of _ Failure] exI[of _ "now pf w2 - now pf w"]
            exI[of _ "errorMetadataOf options err"]) auto
    qed
  qed
qed

text \<open>
  Claim C10. For every wrapped call: an outcome event (success or failure) is delivered
  (once the invocation tracking, when it is on, has settled; always, on a platform where
  the body of every response arrives or fails), and every such payload has a
  \<open>metadata\<close> field; when the invocation fragment is \<open>undefined\<close> and the output and
  error fragments are \<open>undefined\<close> (no extractor, or extractors that throw or return
  nothing), that field is the empty object \<open>{}\<close>. The reason: \<open>mergeMetadata\<close> returns an
  object, and \<open>track\<close> puts the metadata it is given into the payload unchanged (the last
  two conjuncts), so the field is absent exactly when \<open>track\<close> or \<open>trackInvocation\<close> is
  called with metadata \<open>undefined\<close>; in a wrapped call that happens only for the
  invocation event, whose metadata is the invocation fragment.
\<close>

theorem wrap_outcome_metadata:
  fixes pf :: "('v, 'w) Platform" and fn :: "'p \<Rightarrow> 'm \<Rightarrow> 'w \<Rightarrow> (JSError + 'r) \<times> 'w"
    and options :: "('p, 'm, 'r, 'v) WrapOptions"
  shows
  "(\<not> (shouldTrackInvocation options \<and>
        fst (trackInvocation pf config toolName
               (invocationMetadataOf options params meta) w) = Inr Stalls) \<longrightarrow>
     (\<exists>p \<in> set (deliveries (snd (snd (wrap pf config toolName fn options params meta w)))).
       event_type p \<noteq> Invocation))
   \<and> (\<forall>p \<in> set (deliveries (snd (snd (wrap pf config toolName fn options params meta w)))).
       event_type p \<noteq> Invocation \<longrightarrow> (\<exists>m. metadata p = Some m))
   \<and> (invocationMetadataOf options params meta = None
       \<and> (\<forall>result. outputMetadataOf options result = None)
       \<and> (\<forall>err. errorMetadataOf options err = None) \<longrightarrow>
       (\<forall>p \<in> set (deliveries (snd (snd (wrap pf config toolName fn options params meta w)))).
          event_type p \<noteq> Invocation \<longrightarrow> metadata p = Some Map.empty))
   \<and> (\<forall>p \<in> set (deliveries (snd (snd (wrap pf config toolName fn options params meta w)))).
       event_type p = Invocation \<longrightarrow> metadata p = invocationMetadataOf options params meta)
   \<and> map payload (snd (snd (track pf config toolName eventType md durationMs w))) =
       [\<lparr>tool_name = toolName, event_type = eventType, duration_ms = durationMs, metadata = md\<rparr>]
   \<and> map payload (snd (snd (trackInvocation pf config toolName md w))) =
       [\<lparr>tool_name = toolName, event_type = Invocation, duration_ms = None, metadata = md\<rparr>]
   \<and> ((\<forall>rq s resp s'. fetch pf rq s = (Resolves resp, s') \<longrightarrow>
         body_text resp \<noteq> Inr Stalls \<and> body_json resp \<noteq> Inr Stalls) \<longrightarrow>
       (\<exists>p \<in> set (deliveries (snd (snd (wrap pf config toolName fn options params meta w)))).
          event_type p \<noteq> Invocation))"
proof -
  let ?D = "deliveries (snd (snd (wrap pf config toolName fn options params meta w)))"
  let ?inv = "invocationMetadataOf options params meta"
  let ?stall = "shouldTrackInvocation options \<and>
                fst (trackInvocation pf config toolName ?inv w) = Inr Stalls"
  from wrap_deliveries[of pf config toolName fn options params meta w]
  obtain et d fragment where
    D: "?D = (if shouldTrackInvocation options
        then [\<lparr>tool_name = toolName, event_type = Invocation, duration_ms = None,
               metadata = ?inv\<rparr>]
        else []) @
       (if ?stall then []
        else [\<lparr>tool_name = toolName, event_type = et, duration_ms = Some d,
               metadata = Some (mergeMetadata [?inv, fragment])\<rparr>])"
    and et: "et = Success \<and> (\<exists>result. fragment = outputMetadataOf options result)
        \<or> et = Failure \<and> (\<exists>err. fragment = errorMetadataOf options err)"
    by blast
  from et have ne: "et \<noteq> Invocation" by auto
  have A: "\<not> ?stall \<longrightarrow> (\<exists>p \<in> set ?D. event_type p \<noteq> Invocation)"
    unfolding D using ne by simp
  have B: "\<forall>p \<in> set ?D. event_type p \<noteq> Invocation \<longrightarrow> (\<exists>m. metadata p = Some m)"
    unfolding D by simp
  have C: "?inv = None \<and> (\<forall>result. outputMetadataOf options result = None)
       \<and> (\<forall>err. errorMetadataOf options err = None) \<longrightarrow>
       (\<forall>p \<in> set ?D. event_type p \<noteq> Invocation \<longrightarrow> metadata p = Some Map.empty)"
  proof
    assume a: "?inv = None \<and> (\<forall>result. outputMetadataOf options result = None)
       \<and> (\<forall>err. errorMetadataOf options err = None)"
    with et have "fragment = None" by auto
    with a show "\<forall>p \<in> set ?D. event_type p \<noteq> Invocation \<longrightarrow> metadata p = Some Map.empty"
      unfolding D by (simp add: mergeMetadata_None_None)
  qed
  have E: "\<forall>p \<in> set ?D. event_type p = Invocation \<longrightarrow> metadata p = ?inv"
    unfolding D using ne by simp
  have F: "map payload (snd (snd (track pf config toolName eventType md durationMs w))) =
       [\<lparr>tool_name = toolName, event_type = eventType, duration_ms = durationMs, metadata = md\<rparr>]"
    by (simp add: track_eq Let_def)
  have G: "map payload (snd (snd (trackInvocation pf config toolName md w))) =
       [\<lparr>tool_name = toolName, event_type = Invocation, duration_ms = None, metadata = md\<rparr>]"
    by (simp add: trackInvocation_def track_eq Let_def)
  have S: "(\<forall>rq s resp s'. fetch pf rq s = (Resolves resp, s') \<longrightarrow>
         body_text resp \<noteq> Inr Stalls \<and> body_json resp \<noteq> Inr Stalls) \<longrightarrow>
       (\<exists>p \<in> set ?D. event_type p \<noteq> Invocation)"
  proof
    assume b: "(\<forall>rq s resp s'. fetch pf rq s = (Resolves resp, s') \<longrightarrow>
         body_text resp \<noteq> Inr Stalls \<and> body_json resp \<noteq> Inr Stalls)"
    from track_settles(2)[OF b, of config toolName ?inv w] have "\<not> ?stall" by auto
    with A show "\<exists>p \<in> set ?D. event_type p \<noteq> Invocation" by blast
  qed
  show ?thesis by (intro conjI A B C E F G S)
qed

theorem wrap_outcome_metadata_witness:
  "invocationMetadataOf (defaultOptions :: (JSValue, JSValue option, JSValue, JSValue) WrapOptions) testParams None = None
   \<and> (\<forall>result. outputMetadataOf (defaultOptions :: (JSValue, JSValue option, JSValue, JSValue) WrapOptions) result = None)
   \<and> (\<forall>err. errorMetadataOf (defaultOptions :: (JSValue, JSValue option, JSValue, JSValue) WrapOptions) err = None)
   \<and> fst (trackInvocation okPlatform testConfig ''test_tool'' None 0) =
        Inr (Returns \<lparr>success = True, error = None\<rparr>)
   \<and> (\<exists>p \<in> set (deliveries (snd (snd
         (wrap okPlatform testConfig ''test_tool'' resolvingTool defaultOptions testParams None 0)))).
        event_type p \<noteq> Invocation \<and> metadata p = Some Map.empty)
   \<and> (\<exists>p \<in> set (deliveries (snd (snd
         (wrap okPlatform testConfig ''test_tool'' rejectingTool defaultOptions testParams None 0)))).
        event_type p \<noteq> Invocation \<and> metadata p = Some Map.empty)
   \<and> (\<exists>p \<in> set (deliveries (snd (snd
         (wrap okPlatform testConfig ''test_tool'' resolvingTool defaultOptions testParams None 0)))).
        event_type p = Invocation \<and> metadata p = None)
   \<and> (\<exists>p \<in> set (deliveries (snd (snd
         (wrap networkDown testConfig ''test_tool'' resolvingTool defaultOptions testParams None 0)))).
        event_type p \<noteq> Invocation \<and> metadata p = Some Map.empty)"
proof -
  let ?d = "defaultOptions :: (JSValue, JSValue option, JSValue, JSValue) WrapOptions"
  have h: "invocationMetadataOf ?d testParams None = None
       \<and> (\<forall>result. outputMetadataOf ?d result = None)
       \<and> (\<forall>err. errorMetadataOf ?d err = None)"
    by (simp add: defaultOptions_simps)
  have s1: "fst (trackInvocation okPlatform testConfig ''test_tool'' None 0) =
        Inr (Returns \<lparr>success = True, error = None\<rparr>)"
    by (simp add: trackInvocation_def track_okPlatform)
  then have ns: "\<not> (shouldTrackInvocation ?d \<and>
        fst (trackInvocation okPlatform testConfig ''test_tool''
               (invocationMetadataOf ?d testParams None) 0) = Inr Stalls)"
    by (simp add: defaultOptions_simps)
  note T1 = wrap_outcome_metadata[where options = ?d and params = testParams
      and meta = None and pf = okPlatform and config = testConfig and toolName = "''test_tool''"
      and w = 0 and fn = resolvingTool]
  note T2 = wrap_outcome_metadata[where options = ?d and params = testParams
      and meta = None and pf = okPlatform and config = testConfig and toolName = "''test_tool''"
      and w = 0 and fn = rejectingTool]
  from T1[THEN conjunct1] ns T1[THEN conjunct2, THEN conjunct2, THEN conjunct1] h
  have 1: "\<exists>p \<in> set (deliveries (snd (snd
         (wrap okPlatform testConfig ''test_tool'' resolvingTool defaultOptions testParams None 0)))).
        event_type p \<noteq> Invocation \<and> metadata p = Some Map.empty"
    by blast
  from T2[THEN conjunct1] ns T2[THEN conjunct2, THEN conjunct2, THEN conjunct1] h
  have 2: "\<exists>p \<in> set (deliveries (snd (snd
         (wrap okPlatform testConfig ''test_tool'' rejectingTool defaultOptions testParams None 0)))).
        event_type p \<noteq> Invocation \<and> metadata p = Some Map.empty"
    by blast
  from wrap_deliveries[of okPlatform testConfig "''test_tool''" resolvingTool ?d testParams None 0]
  have "\<exists>p \<in> set (deliveries (snd (snd
         (wrap okPlatform testConfig ''test_tool'' resolvingTool ?d testParams None 0)))).
        event_type p = Invocation"
    by (auto simp: defaultOptions_simps)
  with T1[THEN conjunct2, THEN conjunct2, THEN conjunct2, THEN conjunct1] h
  have 3: "\<exists>p \<in> set (deliveries (snd (snd
         (wrap okPlatform testConfig ''test_tool'' resolvingTool defaultOptions testParams None 0)))).
        event_type p = Invocation \<and> metadata p = None"
    by auto
  note T3 = wrap_outcome_metadata[where options = ?d and params = testParams
      and meta = None and pf = networkDown and config = testConfig and toolName = "''test_tool''"
      and w = 0 and fn = resolvingTool]
  from T3[THEN conjunct2, THEN conjunct2, THEN conjunct2, THEN conjunct2, THEN conjunct2,
          THEN conjunct2] bodies_networkDown
    T3[THEN conjunct2, THEN conjunct2, THEN conjunct1] h
  have 4: "\<exists>p \<in> set (deliveries (snd (snd
         (wrap networkDown testConfig ''test_tool'' resolvingTool defaultOptions testParams None 0)))).
        event_type p \<noteq> Invocation \<and> metadata p = Some Map.empty"
    by blast
  show ?thesis by (intro conjI h[THEN conjunct1] h[THEN conjunct2, THEN conjunct1]
      h[THEN conjunct2, THEN conjunct2] s1 1 2 3 4)
qed


end
